theory Spec2Isabelle
  imports Main "HOL-Library.Word"
begin

section \<open>JavaScript values used by the image generator\<close>

text \<open>
  A JavaScript string is a sequence of UTF-16 code units. String constants of the source
  are ASCII and are written \<open>js ''...''\<close>.
\<close>

type_synonym jsstring = "16 word list"

definition js :: "string \<Rightarrow> jsstring" where
  "js s = map of_char s"

text \<open>
  \<^verbatim>\<open>String.prototype.trim\<close> removes ECMAScript WhiteSpace and LineTerminator code points
  from both ends: TAB, VT, FF, SP, NBSP, ZWNBSP, the category Zs, and LF, CR, LS, PS.
\<close>

definition isWhiteSpace :: "16 word \<Rightarrow> bool" where
  "isWhiteSpace c \<longleftrightarrow>
     c \<in> {0x09, 0x0A, 0x0B, 0x0C, 0x0D, 0x20, 0xA0, 0x1680,
          0x2028, 0x2029, 0x202F, 0x205F, 0x3000, 0xFEFF}
     \<or> (0x2000 \<le> c \<and> c \<le> 0x200A)"

definition trim :: "jsstring \<Rightarrow> jsstring" where
  "trim s = rev (dropWhile isWhiteSpace (rev (dropWhile isWhiteSpace s)))"

definition startsWith :: "jsstring \<Rightarrow> jsstring \<Rightarrow> bool" where
  "startsWith s p \<longleftrightarrow> take (length p) s = p"

text \<open>A \<^verbatim>\<open>File\<close>: its MIME type and its bytes; \<^verbatim>\<open>file.size\<close> is the number of bytes.\<close>

record js_file =
  file_type :: jsstring
  file_bytes :: "8 word list"

definition file_size :: "js_file \<Rightarrow> nat" where
  "file_size f = length (file_bytes f)"

text \<open>
  A value read from a parsed JSON body. What the code asks of such a value is whether it is
  truthy, whether \<^verbatim>\<open>typeof\<close> gives \<^verbatim>\<open>'string'\<close>, and what \<^verbatim>\<open>String(v)\<close> is; a value that
  is neither a string nor nullish carries its truthiness and its rendering.
\<close>

datatype jsval = JSUndefined | JSNull | JSString jsstring | JSOther bool jsstring

fun truthy :: "jsval \<Rightarrow> bool" where
  "truthy JSUndefined = False"
| "truthy JSNull = False"
| "truthy (JSString s) = (s \<noteq> [])"
| "truthy (JSOther b r) = b"

fun toStr :: "jsval \<Rightarrow> jsstring" where
  "toStr JSUndefined = js ''undefined''"
| "toStr JSNull = js ''null''"
| "toStr (JSString s) = s"
| "toStr (JSOther b r) = r"

text \<open>A thrown value: an \<^verbatim>\<open>Error\<close> instance with its message, or anything else.\<close>

datatype thrown = ErrorInstance jsstring | OtherThrown

text \<open>The identifier \<^verbatim>\<open>toast(...)\<close> returns: \<^verbatim>\<open>string | number\<close>.\<close>

datatype toast_id = IdNumber nat | IdString jsstring

fun truthyId :: "toast_id option \<Rightarrow> bool" where
  "truthyId None = False"
| "truthyId (Some (IdNumber n)) = (n \<noteq> 0)"
| "truthyId (Some (IdString s)) = (s \<noteq> [])"

fun truthyStr :: "jsstring option \<Rightarrow> bool" where
  "truthyStr None = False"
| "truthyStr (Some s) = (s \<noteq> [])"

section \<open>Data model\<close>

record GeneratedImage =
  imageUrl :: jsstring
  gen_prompt :: jsstring
  timestamp :: nat

text \<open>The argument of \<^verbatim>\<open>sendTransaction\<close>.\<close>

record tx_request =
  tx_to :: jsstring
  tx_data :: "jsstring option"
  tx_value :: nat

text \<open>The multipart body: the field \<^verbatim>\<open>prompt\<close> and the optional field \<^verbatim>\<open>image\<close>.\<close>

record form_data =
  fd_prompt :: "jsstring option"
  fd_image :: "js_file option"

text \<open>
  The component state of the fixed-delay variant: the \<^verbatim>\<open>useState\<close> cells and the state of the
  \<^verbatim>\<open>useSendTransaction\<close> mutation (\<open>None\<close> is idle, as after \<^verbatim>\<open>resetTransaction()\<close>).
  The polling variant has one more cell, \<^verbatim>\<open>toastId\<close>.
\<close>

record gen_state =
  prompt :: jsstring
  isGenerating :: bool
  generatedImage :: "GeneratedImage option"
  generationHistory :: "GeneratedImage list"
  uploadedImage :: "js_file option"
  uploadedImagePreview :: "jsstring option"
  transaction :: "tx_request option"

record polling_state = gen_state +
  toastId :: "toast_id option"

definition initialState :: gen_state where
  "initialState = \<lparr>prompt = [], isGenerating = False, generatedImage = None,
     generationHistory = [], uploadedImage = None, uploadedImagePreview = None,
     transaction = None\<rparr>"

definition initialPollingState :: polling_state where
  "initialPollingState = \<lparr>prompt = [], isGenerating = False, generatedImage = None,
     generationHistory = [], uploadedImage = None, uploadedImagePreview = None,
     transaction = None, toastId = None\<rparr>"

text \<open>
  The values of the wagmi hooks in the render that created the handler. The handler is a
  closure over these constants: every read of \<^verbatim>\<open>isConfirmed\<close> or \<^verbatim>\<open>account.address\<close> during one
  invocation gives the value of that render.
\<close>

record hooks =
  address :: "jsstring option"
  isConfirmed :: bool

text \<open>What the generation endpoint answers to the client.\<close>

datatype api_data = ApiNull | ApiObject (api_error: jsval) (api_imageUrl: jsval)

datatype fetch_outcome =
    FetchRejects thrown
  | JsonRejects thrown
  | Response bool api_data

text \<open>
  What the surroundings give to one invocation: the time \<^verbatim>\<open>new Date()\<close> reads, the
  answer to the request, the identifier that \<^verbatim>\<open>toast(...)\<close> returns (\<^verbatim>\<open>toastId_\<close>; only
  the polling variant keeps it), and the message of the \<^verbatim>\<open>TypeError\<close> that the JavaScript
  engine throws when a property of \<^verbatim>\<open>null\<close> is read, as a function of the property's name.
\<close>

record env =
  now :: nat
  fetch :: "form_data \<Rightarrow> fetch_outcome"
  toastReturns :: toast_id
  nullReadMessage :: "jsstring \<Rightarrow> jsstring"

text \<open>
  The module \<^verbatim>\<open>@/lib/usdc\<close> is not part of the sources: the token address and the calldata
  that \<^verbatim>\<open>encodeFunctionData\<close> builds for the transfer of 0.1 USDC are parameters.
\<close>

record usdc =
  usdc_address :: jsstring
  usdc_paymentData :: jsstring

datatype effect =
    ToastError jsstring
  | ToastSuccess jsstring
  | ToastMessage jsstring jsstring
  | ToastDismiss toast_id
  | SendTransaction tx_request
  | Sleep nat
  | Fetch jsstring form_data
  | ConsoleError thrown
  | ReadAsDataURL js_file

text \<open>Which way an invocation of the handler left.\<close>

datatype exit = ValidationRejected | Failed thrown | Succeeded GeneratedImage

section \<open>The upload handlers\<close>

text \<open>
  The image generator component exists in two variants, both in
  \<^verbatim>\<open>src/components/ui/sonner.tsx\<close>: the polling variant (lines 32 to 427) and the fixed-delay
  variant (lines 428 to 755). \<^verbatim>\<open>handleFileUpload\<close> (lines 92 to 118 and 468 to 494),
  \<^verbatim>\<open>reader.onload\<close> and \<^verbatim>\<open>clearUploadedImage\<close> are the same in both.
\<close>

definition handleFileUpload ::
  "js_file option \<Rightarrow> 'a gen_state_scheme \<Rightarrow> 'a gen_state_scheme \<times> effect list" where
  "handleFileUpload file s =
     (case file of
        None \<Rightarrow> (s, [])
      | Some f \<Rightarrow>
          if \<not> startsWith (file_type f) (js ''image/'') then
            (s, [ToastError (js ''Please upload an image file'')])
          else if file_size f > 10 * 1024 * 1024 then
            (s, [ToastError (js ''File size must be less than 10MB'')])
          else
            (s\<lparr>uploadedImage := Some f\<rparr>,
             [ReadAsDataURL f, ToastSuccess (js ''Image uploaded successfully!'')]))"

text \<open>The \<^verbatim>\<open>reader.onload\<close> callback, run when the file has been read.\<close>

definition readerOnload :: "jsstring option \<Rightarrow> 'a gen_state_scheme \<Rightarrow> 'a gen_state_scheme" where
  "readerOnload result s = s\<lparr>uploadedImagePreview := result\<rparr>"

definition clearUploadedImage :: "'a gen_state_scheme \<Rightarrow> 'a gen_state_scheme" where
  "clearUploadedImage s = s\<lparr>uploadedImage := None, uploadedImagePreview := None\<rparr>"

section \<open>The payment-gated generation flow\<close>

definition maxAttempts :: nat where
  "maxAttempts = 30"

text \<open>
  The wait loop of the polling variant (lines 158 to 166):
  \<^verbatim>\<open>while (!isConfirmed && attempts < maxAttempts) { await ...; attempts++; if (isConfirmed) break; }\<close>
  It returns \<^verbatim>\<open>attempts\<close>, the number of one-second sleeps it made.
\<close>

function pollLoop :: "bool \<Rightarrow> nat \<Rightarrow> nat" where
  "pollLoop confirmed attempts =
     (if \<not> confirmed \<and> attempts < maxAttempts then
        (if confirmed then attempts + 1 else pollLoop confirmed (attempts + 1))
      else attempts)"
  by pat_completeness auto
termination
  by (relation "measure (\<lambda>(confirmed, attempts). maxAttempts - attempts)") auto

text \<open>
  Reading a property of \<^verbatim>\<open>null\<close> throws a \<^verbatim>\<open>TypeError\<close>, an \<^verbatim>\<open>Error\<close> instance whose
  message is the engine's and names the property.
\<close>

definition nullPropertyError :: "env \<Rightarrow> jsstring \<Rightarrow> thrown" where
  "nullPropertyError e property = ErrorInstance (nullReadMessage e property)"

definition invalidUrlError :: thrown where
  "invalidUrlError = ErrorInstance (js ''Invalid image URL received from API'')"

definition timeoutError :: thrown where
  "timeoutError =
     ErrorInstance (js ''Payment confirmation timeout - transaction may have failed'')"

text \<open>
  From building the form data to the validation of the result URL (lines 172 to 200, and
  534 to 562 with the same text). The result is the thrown value or \<^verbatim>\<open>newImage\<close>.
\<close>

definition requestGeneration ::
  "env \<Rightarrow> 'a gen_state_scheme \<Rightarrow> (thrown + GeneratedImage) \<times> effect list" where
  "requestGeneration e s =
     (let formData = \<lparr>fd_prompt = Some (prompt s), fd_image = uploadedImage s\<rparr>;
          call = [Fetch (js ''/api/generate'') formData]
      in case fetch e formData of
           FetchRejects t \<Rightarrow> (Inl t, call)
         | JsonRejects t \<Rightarrow> (Inl t, call)
         | Response ok apiData \<Rightarrow>
             if \<not> ok then
               (case apiData of
                  ApiNull \<Rightarrow> (Inl (nullPropertyError e (js ''error'')), call)
                | ApiObject err url \<Rightarrow>
                    (Inl (ErrorInstance
                       (if truthy err then toStr err else js ''Failed to generate image'')),
                     call))
             else
               (case apiData of
                  ApiNull \<Rightarrow> (Inl (nullPropertyError e (js ''imageUrl'')), call)
                | ApiObject err url \<Rightarrow>
                    (case url of
                       JSString u \<Rightarrow>
                         if u = [] then (Inl invalidUrlError, call)
                         else
                           (Inr \<lparr>imageUrl = u,
                                 gen_prompt = (case uploadedImage s of
                                                 Some f \<Rightarrow> js ''Reimagined: '' @ prompt s
                                               | None \<Rightarrow> prompt s),
                                 timestamp = now e\<rparr>,
                            call)
                     | _ \<Rightarrow> (Inl invalidUrlError, call))))"

definition catchMessage :: "thrown \<Rightarrow> jsstring" where
  "catchMessage t =
     (case t of ErrorInstance m \<Rightarrow> m | OtherThrown \<Rightarrow> js ''Failed to generate image'')"

text \<open>
  The end of the \<^verbatim>\<open>try\<close> block on success (lines 202 to 204, 564 to 566), and the
  \<^verbatim>\<open>catch\<close> block otherwise (lines 206 to 208, 568 to 570).
\<close>

definition settle ::
  "thrown + GeneratedImage \<Rightarrow> 'a gen_state_scheme \<Rightarrow>
     exit \<times> 'a gen_state_scheme \<times> effect list" where
  "settle r s =
     (case r of
        Inr newImage \<Rightarrow>
          (Succeeded newImage,
           s\<lparr>generatedImage := Some newImage,
             generationHistory := newImage # take 4 (generationHistory s)\<rparr>,
           [ToastSuccess (js ''Image generated successfully!'')])
      | Inl t \<Rightarrow> (Failed t, s, [ConsoleError t, ToastError (catchMessage t)]))"

definition ethPayment :: tx_request where
  "ethPayment = \<lparr>tx_to = js ''0xaf59B12ea11914A0373ffbb13FF8b03F8537C599'',
                  tx_data = None, tx_value = 50000000000000\<rparr>"

text \<open>
  The \<^verbatim>\<open>try\<close> block of the polling variant up to the call of the generation API (lines
  142 to 170): payment, toast, wait loop and the timeout check.
\<close>

definition awaitConfirmation ::
  "env \<Rightarrow> hooks \<Rightarrow> polling_state \<Rightarrow> (thrown + GeneratedImage) \<times> effect list" where
  "awaitConfirmation e h s =
     (let before = [SendTransaction ethPayment,
                    ToastMessage (js ''Processing payment...'')
                                 (js ''Paying 0.00005 ETH for image generation'')]
                   @ replicate (pollLoop (isConfirmed h) 0) (Sleep 1000)
      in if \<not> isConfirmed h then (Inl timeoutError, before)
         else (case requestGeneration e s of (r, es) \<Rightarrow> (r, before @ es)))"

text \<open>
  The \<^verbatim>\<open>finally\<close> block of the polling variant (lines 209 to 216). It reads \<^verbatim>\<open>toastId\<close>, the constant of the
  render that created the handler: the first argument is that captured value, which is
  \<open>toastId s\<close> of the state at the call and not the value given to \<^verbatim>\<open>setToastId\<close> during the
  invocation.
\<close>

definition cleanup :: "toast_id option \<Rightarrow> polling_state \<Rightarrow> polling_state \<times> effect list" where
  "cleanup captured s =
     (let s' = s\<lparr>isGenerating := False, transaction := None\<rparr>
      in case captured of
           None \<Rightarrow> (s', [])
         | Some i \<Rightarrow>
             if truthyId (Some i) then (s'\<lparr>toastId := None\<rparr>, [ToastDismiss i])
             else (s', []))"

text \<open>The handler of the polling variant (lines 128 to 217).\<close>

definition handleGenerate ::
  "env \<Rightarrow> hooks \<Rightarrow> polling_state \<Rightarrow> exit \<times> polling_state \<times> effect list" where
  "handleGenerate e h s =
     (if trim (prompt s) = [] then
        (ValidationRejected, s, [ToastError (js ''Please enter a prompt'')])
      else if \<not> truthyStr (address h) then
        (ValidationRejected, s, [ToastError (js ''Please connect your wallet first'')])
      else
        (let s1 = s\<lparr>isGenerating := True, transaction := Some ethPayment,
                     toastId := Some (toastReturns e)\<rparr>
         in case awaitConfirmation e h s1 of (r, es) \<Rightarrow>
            (case settle r s1 of (x, s2, es') \<Rightarrow>
               (case cleanup (toastId s) s2 of (s3, es'') \<Rightarrow>
                  (x, s3, es @ es' @ es'')))))"

definition usdcPayment :: "usdc \<Rightarrow> tx_request" where
  "usdcPayment u =
     \<lparr>tx_to = usdc_address u, tx_data = Some (usdc_paymentData u), tx_value = 0\<rparr>"

text \<open>
  The handler of the fixed-delay variant (lines 504 to 575). It does not read
  \<^verbatim>\<open>isConfirmed\<close>.
\<close>

definition handleGenerate_fixedDelay ::
  "usdc \<Rightarrow> env \<Rightarrow> hooks \<Rightarrow> 'a gen_state_scheme \<Rightarrow>
     exit \<times> 'a gen_state_scheme \<times> effect list" where
  "handleGenerate_fixedDelay u e h s =
     (if trim (prompt s) = [] then
        (ValidationRejected, s, [ToastError (js ''Please enter a prompt'')])
      else if \<not> truthyStr (address h) then
        (ValidationRejected, s, [ToastError (js ''Please connect your wallet first'')])
      else
        (let s1 = s\<lparr>isGenerating := True, transaction := Some (usdcPayment u)\<rparr>
         in case requestGeneration e s1 of (r, es) \<Rightarrow>
            (case settle r s1 of (x, s2, es') \<Rightarrow>
               (x, s2\<lparr>isGenerating := False, transaction := None\<rparr>,
                [SendTransaction (usdcPayment u), Sleep 1000] @ es @ es'))))"

text \<open>
  The effect hook of the polling variant that reacts to the confirmation (lines 76 to 90).
\<close>

definition confirmationEffect :: "hooks \<Rightarrow> polling_state \<Rightarrow> polling_state \<times> effect list" where
  "confirmationEffect h s =
     (case toastId s of
        None \<Rightarrow> (s, [])
      | Some i \<Rightarrow>
          if isConfirmed h then
            (s\<lparr>toastId := None, transaction := None\<rparr>,
             [ToastSuccess (js ''Payment confirmed!''), ToastDismiss i])
          else (s, []))"

text \<open>The generation calls among the effects of an invocation.\<close>

fun generationCalls :: "effect list \<Rightarrow> form_data list" where
  "generationCalls [] = []"
| "generationCalls (Fetch url fd # es) = fd # generationCalls es"
| "generationCalls (e # es) = generationCalls es"

fun errorToasts :: "effect list \<Rightarrow> jsstring list" where
  "errorToasts [] = []"
| "errorToasts (ToastError m # es) = m # errorToasts es"
| "errorToasts (e # es) = errorToasts es"

fun payments :: "effect list \<Rightarrow> tx_request list" where
  "payments [] = []"
| "payments (SendTransaction r # es) = r # payments es"
| "payments (e # es) = payments es"

section \<open>The component as a whole\<close>

text \<open>
  What can happen to the component: the user types, picks or clears a file, the file
  reader finishes, the user clicks an entry of the history grid, the confirmation effect
  runs (polling variant only), the user starts a generation.
\<close>

datatype ui_event =
    SetPrompt jsstring
  | FileUpload "js_file option"
  | ReaderLoaded "jsstring option"
  | ClearUpload
  | SelectFromHistory nat
  | ConfirmationEffect hooks
  | Generate env hooks

text \<open>
  The history grid shows \<^verbatim>\<open>generationHistory.slice(1)\<close>; a click on an entry makes it the
  latest image. In the polling variant (lines 401 to 413) the grid is shown only while
  there is more than one entry, no latest image and no generation in progress.
\<close>

definition selectFromHistory :: "nat \<Rightarrow> 'a gen_state_scheme \<Rightarrow> 'a gen_state_scheme" where
  "selectFromHistory i s =
     (if length (generationHistory s) > 1 \<and> generatedImage s = None \<and> \<not> isGenerating s
         \<and> i < length (drop 1 (generationHistory s))
      then s\<lparr>generatedImage := Some (drop 1 (generationHistory s) ! i)\<rparr>
      else s)"

text \<open>
  In the fixed-delay variant (lines 729 to 742) the grid is shown whenever there is more
  than one entry.
\<close>

definition selectFromHistory_fixedDelay ::
  "nat \<Rightarrow> 'a gen_state_scheme \<Rightarrow> 'a gen_state_scheme" where
  "selectFromHistory_fixedDelay i s =
     (if length (generationHistory s) > 1 \<and> i < length (drop 1 (generationHistory s))
      then s\<lparr>generatedImage := Some (drop 1 (generationHistory s) ! i)\<rparr>
      else s)"

fun pollingStep :: "ui_event \<Rightarrow> polling_state \<Rightarrow> polling_state" where
  "pollingStep (SetPrompt p) s = s\<lparr>prompt := p\<rparr>"
| "pollingStep (FileUpload file) s = fst (handleFileUpload file s)"
| "pollingStep (ReaderLoaded r) s = readerOnload r s"
| "pollingStep ClearUpload s = clearUploadedImage s"
| "pollingStep (SelectFromHistory i) s = selectFromHistory i s"
| "pollingStep (ConfirmationEffect h) s = fst (confirmationEffect h s)"
| "pollingStep (Generate e h) s = fst (snd (handleGenerate e h s))"

fun fixedDelayStep :: "usdc \<Rightarrow> ui_event \<Rightarrow> 'a gen_state_scheme \<Rightarrow> 'a gen_state_scheme" where
  "fixedDelayStep u (SetPrompt p) s = s\<lparr>prompt := p\<rparr>"
| "fixedDelayStep u (FileUpload file) s = fst (handleFileUpload file s)"
| "fixedDelayStep u (ReaderLoaded r) s = readerOnload r s"
| "fixedDelayStep u ClearUpload s = clearUploadedImage s"
| "fixedDelayStep u (SelectFromHistory i) s = selectFromHistory_fixedDelay i s"
| "fixedDelayStep u (ConfirmationEffect h) s = s"
| "fixedDelayStep u (Generate e h) s = fst (snd (handleGenerate_fixedDelay u e h s))"

fun pollingRun :: "ui_event list \<Rightarrow> polling_state \<Rightarrow> polling_state" where
  "pollingRun [] s = s"
| "pollingRun (ev # evs) s = pollingRun evs (pollingStep ev s)"

fun fixedDelayRun :: "usdc \<Rightarrow> ui_event list \<Rightarrow> 'a gen_state_scheme \<Rightarrow> 'a gen_state_scheme" where
  "fixedDelayRun u [] s = s"
| "fixedDelayRun u (ev # evs) s = fixedDelayRun u evs (fixedDelayStep u ev s)"

text \<open>The results of the successful generations of a run, oldest first.\<close>

fun succeeded :: "exit \<Rightarrow> GeneratedImage list" where
  "succeeded (Succeeded img) = [img]"
| "succeeded x = []"

fun pollingProduced :: "ui_event list \<Rightarrow> polling_state \<Rightarrow> GeneratedImage list" where
  "pollingProduced [] s = []"
| "pollingProduced (Generate e h # evs) s =
     succeeded (fst (handleGenerate e h s)) @ pollingProduced evs (pollingStep (Generate e h) s)"
| "pollingProduced (ev # evs) s = pollingProduced evs (pollingStep ev s)"

fun fixedDelayProduced ::
  "usdc \<Rightarrow> ui_event list \<Rightarrow> 'a gen_state_scheme \<Rightarrow> GeneratedImage list" where
  "fixedDelayProduced u [] s = []"
| "fixedDelayProduced u (Generate e h # evs) s =
     succeeded (fst (handleGenerate_fixedDelay u e h s))
       @ fixedDelayProduced u evs (fixedDelayStep u (Generate e h) s)"
| "fixedDelayProduced u (ev # evs) s = fixedDelayProduced u evs (fixedDelayStep u ev s)"

section \<open>The generation endpoint\<close>

text \<open>The handler \<^verbatim>\<open>POST\<close> of \<^verbatim>\<open>src/app/api/generate/route.ts\<close>.\<close>

text \<open>The input of the model run.\<close>

record run_input =
  in_prompt :: jsstring
  image_input :: "jsstring list"
  aspect_ratio :: jsstring
  output_format :: jsstring

text \<open>
  What \<^verbatim>\<open>replicate.run\<close> and then \<^verbatim>\<open>output.url()\<close> do: the run rejects, or \<^verbatim>\<open>url()\<close> throws
  (an output without that method), or it returns a URL, which \<^verbatim>\<open>NextResponse.json\<close> writes
  as a string.
\<close>

datatype run_outcome = RunRejects thrown | UrlThrows thrown | UrlReturns jsstring

text \<open>
  What the endpoint reads from outside: the parsed form (or the rejection of
  \<^verbatim>\<open>request.formData()\<close>), the API token of the process environment, the base64 encoder of
  \<^verbatim>\<open>Buffer\<close>, and the model service. The casts \<^verbatim>\<open>as string\<close> and \<^verbatim>\<open>as File | null\<close> of the source
  are the types of the two fields.
\<close>

record server_env =
  formData :: "thrown + form_data"
  apiToken :: "jsstring option"
  toBase64 :: "8 word list \<Rightarrow> jsstring"
  replicateRun :: "jsstring \<Rightarrow> run_input \<Rightarrow> run_outcome"

datatype response_body =
    ErrorBody (resp_error: jsstring) (resp_details: "jsstring option")
  | SuccessBody (resp_success: bool) (resp_imageUrl: jsstring) (resp_prompt: jsstring)

record http_response =
  status :: nat
  body :: response_body

datatype server_effect = Log jsstring | LogError jsstring | RunModel jsstring run_input

definition serverCatch :: "thrown \<Rightarrow> http_response" where
  "serverCatch t =
     \<lparr>status = 500,
      body = ErrorBody (js ''Failed to generate image'')
               (Some (case t of ErrorInstance m \<Rightarrow> m
                              | OtherThrown \<Rightarrow> js ''Unknown error occurred''))\<rparr>"

definition promptRequired :: "http_response \<times> server_effect list" where
  "promptRequired =
     (\<lparr>status = 400, body = ErrorBody (js ''Prompt is required'') None\<rparr>, [])"

definition tokenMissing :: "http_response \<times> server_effect list" where
  "tokenMissing =
     (\<lparr>status = 500,
       body = ErrorBody
         (js ''Server configuration error: Replicate API token not configured'') None\<rparr>,
      [LogError (js ''Missing Replicate API token'')])"

text \<open>The part of the handler after the two checks: the model run and the answer.\<close>

definition generate ::
  "server_env \<Rightarrow> jsstring \<Rightarrow> js_file option \<Rightarrow> http_response \<times> server_effect list" where
  "generate sv p uploaded =
     (let input = (case uploaded of
                     Some f \<Rightarrow>
                       \<lparr>in_prompt = p,
                        image_input =
                          [js ''data:''
                           @ (if file_type f = [] then js ''image/png'' else file_type f)
                           @ js '';base64,'' @ toBase64 sv (file_bytes f)],
                        aspect_ratio = js ''1:1'', output_format = js ''png''\<rparr>
                   | None \<Rightarrow>
                       \<lparr>in_prompt = p, image_input = [],
                        aspect_ratio = js ''1:1'', output_format = js ''png''\<rparr>);
          logs = [Log (case uploaded of
                         Some f \<Rightarrow>
                           js ''Processing image-to-image generation with Nano Banana...''
                       | None \<Rightarrow>
                           js ''Processing text-to-image generation with Nano Banana...''),
                  RunModel (js ''google/nano-banana'') input]
      in case replicateRun sv (js ''google/nano-banana'') input of
           RunRejects t \<Rightarrow>
             (serverCatch t, logs @ [LogError (js ''Image generation error:'')])
         | UrlThrows t \<Rightarrow>
             (serverCatch t, logs @ [LogError (js ''Image generation error:'')])
         | UrlReturns url \<Rightarrow>
             (\<lparr>status = 200,
               body = SuccessBody True url
                        (case uploaded of
                           Some f \<Rightarrow> js ''Reimagined: '' @ p
                         | None \<Rightarrow> p)\<rparr>,
              logs))"

definition POST :: "server_env \<Rightarrow> http_response \<times> server_effect list" where
  "POST sv =
     (case formData sv of
        Inl t \<Rightarrow> (serverCatch t, [LogError (js ''Image generation error:'')])
      | Inr fd \<Rightarrow>
          (case fd_prompt fd of
             None \<Rightarrow> promptRequired
           | Some p \<Rightarrow>
               if p = [] then promptRequired
               else if \<not> truthyStr (apiToken sv) then tokenMissing
               else generate sv p (fd_image fd)))"

fun modelCalls :: "server_effect list \<Rightarrow> run_input list" where
  "modelCalls [] = []"
| "modelCalls (RunModel m i # es) = i # modelCalls es"
| "modelCalls (e # es) = modelCalls es"

section \<open>Scenarios\<close>

text \<open>
  The inputs of the scenarios: a prompt typed into the fresh component, a connected
  wallet with a given confirmation flag, a generation service with a given answer, and
  three files.
\<close>

definition typed :: "string \<Rightarrow> polling_state" where
  "typed p = initialPollingState\<lparr>prompt := js p\<rparr>"

definition typedFixedDelay :: "string \<Rightarrow> gen_state" where
  "typedFixedDelay p = initialState\<lparr>prompt := js p\<rparr>"

definition wallet :: "bool \<Rightarrow> hooks" where
  "wallet confirmed = \<lparr>address = Some (js ''0x1111''), isConfirmed = confirmed\<rparr>"

definition noWallet :: hooks where
  "noWallet = \<lparr>address = None, isConfirmed = False\<rparr>"

text \<open>The message of V8 for a read of a property of \<^verbatim>\<open>null\<close>.\<close>

definition engineMessage :: "jsstring \<Rightarrow> jsstring" where
  "engineMessage property =
     js ''Cannot read properties of null (reading '' @ [0x27] @ property @ [0x27] @ js '')''"

definition service :: "fetch_outcome \<Rightarrow> env" where
  "service answer =
     \<lparr>now = 0, fetch = (\<lambda>fd. answer), toastReturns = IdNumber 1,
      nullReadMessage = engineMessage\<rparr>"

text \<open>
  The hook values of the render that is current \<open>k\<close> seconds after the click, for a payment
  that is confirmed \<open>n\<close> seconds after the click. An invocation runs the handler that the
  render at the click created, so it reads the values of \<open>k = 0\<close>.
\<close>

definition walletConfirmedAfter :: "nat \<Rightarrow> nat \<Rightarrow> hooks" where
  "walletConfirmedAfter n k = \<lparr>address = Some (js ''0x1111''), isConfirmed = (n \<le> k)\<rparr>"

definition imageAnswer :: fetch_outcome where
  "imageAnswer = Response True (ApiObject JSUndefined (JSString (js ''https://img/1.png'')))"

definition refusal :: fetch_outcome where
  "refusal = Response False (ApiObject (JSString (js ''Prompt is required'')) JSUndefined)"

definition noUrlAnswer :: fetch_outcome where
  "noUrlAnswer = Response True (ApiObject JSUndefined JSUndefined)"

definition textFile :: js_file where
  "textFile = \<lparr>file_type = js ''text/plain'', file_bytes = []\<rparr>"

definition pngOfSize :: "nat \<Rightarrow> js_file" where
  "pngOfSize n = \<lparr>file_type = js ''image/png'', file_bytes = replicate n 0\<rparr>"

definition testToken :: usdc where
  "testToken = \<lparr>usdc_address = js ''0x2222'', usdc_paymentData = js ''0xa9059cbb''\<rparr>"

text \<open>Six confirmed generations in a row, told apart by their time.\<close>

definition serviceAt :: "nat \<Rightarrow> env" where
  "serviceAt n =
     \<lparr>now = n, fetch = (\<lambda>fd. imageAnswer), toastReturns = IdNumber n,
      nullReadMessage = engineMessage\<rparr>"

definition click :: "nat \<Rightarrow> ui_event" where
  "click n = Generate (serviceAt n) (wallet True)"

definition sixGenerations :: "ui_event list" where
  "sixGenerations =
     [SetPrompt (js ''a red bicycle''), click 1, click 2, click 3, click 4, click 5, click 6]"

text \<open>
  A request to the endpoint with the given prompt field, image field and API token, and a
  model service with the given outcome.
\<close>

definition request ::
  "jsstring option \<Rightarrow> js_file option \<Rightarrow> jsstring option \<Rightarrow> run_outcome \<Rightarrow> server_env" where
  "request p img token outcome =
     \<lparr>formData = Inr \<lparr>fd_prompt = p, fd_image = img\<rparr>, apiToken = token,
      toBase64 = (\<lambda>bytes. []), replicateRun = (\<lambda>model input. outcome)\<rparr>"

definition malformedRequest :: server_env where
  "malformedRequest =
     \<lparr>formData = Inl (ErrorInstance (js ''Failed to parse body as FormData.'')),
      apiToken = Some (js ''r8_token''), toBase64 = (\<lambda>bytes. []),
      replicateRun = (\<lambda>model input. RunRejects OtherThrown)\<rparr>"

section \<open>Theorems\<close>

subsection \<open>Strings, the wait loop and the effect lists\<close>

lemma trim_empty_iff: "trim s = [] \<longleftrightarrow> (\<forall>c \<in> set s. isWhiteSpace c)"
proof
  assume "trim s = []"
  then have all: "\<forall>c \<in> set (dropWhile isWhiteSpace s). isWhiteSpace c"
    by (simp add: trim_def dropWhile_eq_Nil_conv)
  have "dropWhile isWhiteSpace s = []"
  proof (rule ccontr)
    assume ne: "dropWhile isWhiteSpace s \<noteq> []"
    then have "\<not> isWhiteSpace (hd (dropWhile isWhiteSpace s))"
      by (rule hd_dropWhile)
    moreover from ne have "hd (dropWhile isWhiteSpace s) \<in> set (dropWhile isWhiteSpace s)"
      by simp
    ultimately show False using all by blast
  qed
  then show "\<forall>c \<in> set s. isWhiteSpace c"
    by (simp add: dropWhile_eq_Nil_conv)
next
  assume "\<forall>c \<in> set s. isWhiteSpace c"
  then have "dropWhile isWhiteSpace s = []"
    by (simp add: dropWhile_eq_Nil_conv)
  then show "trim s = []"
    unfolding trim_def by (simp only: rev.simps dropWhile.simps)
qed

lemma red_bicycle: "trim (js ''a red bicycle'') \<noteq> []"
  by (simp add: trim_def js_def isWhiteSpace_def)

lemma pollLoop_confirmed: "pollLoop True a = a"
  by simp

lemma pollLoop_unconfirmed: "a \<le> maxAttempts \<Longrightarrow> pollLoop False a = maxAttempts"
proof (induction "maxAttempts - a" arbitrary: a)
  case 0
  then show ?case by simp
next
  case (Suc n)
  then have "a < maxAttempts" and "n = maxAttempts - (a + 1)" and "a + 1 \<le> maxAttempts"
    by simp_all
  with Suc.hyps(1) [of "a + 1"] have "pollLoop False (a + 1) = maxAttempts"
    by simp
  with \<open>a < maxAttempts\<close> show ?case
    by (subst pollLoop.simps) simp
qed

lemma generationCalls_append:
  "generationCalls (xs @ ys) = generationCalls xs @ generationCalls ys"
  by (induction xs rule: generationCalls.induct) simp_all

lemma errorToasts_append: "errorToasts (xs @ ys) = errorToasts xs @ errorToasts ys"
  by (induction xs rule: errorToasts.induct) simp_all

lemma generationCalls_sleeps: "generationCalls (replicate n (Sleep k)) = []"
  by (induction n) simp_all

lemma errorToasts_sleeps: "errorToasts (replicate n (Sleep k)) = []"
  by (induction n) simp_all

subsection \<open>The parts of the flow\<close>

lemma requestGeneration_effects:
  "snd (requestGeneration e s) =
     [Fetch (js ''/api/generate'') \<lparr>fd_prompt = Some (prompt s), fd_image = uploadedImage s\<rparr>]"
  by (simp add: requestGeneration_def Let_def
           split: fetch_outcome.split api_data.split jsval.split)

lemma requestGeneration_frame:
  "requestGeneration e (s\<lparr>isGenerating := a, transaction := b\<rparr>) = requestGeneration e s"
  by (simp add: requestGeneration_def Let_def
           split: fetch_outcome.split api_data.split jsval.split option.split)

lemma requestGeneration_Inr:
  "fst (requestGeneration e s) = Inr img \<longleftrightarrow>
     (\<exists>err url. fetch e \<lparr>fd_prompt = Some (prompt s), fd_image = uploadedImage s\<rparr>
                  = Response True (ApiObject err (JSString url))
        \<and> url \<noteq> []
        \<and> img = \<lparr>imageUrl = url,
                  gen_prompt = (case uploadedImage s of
                                  Some f \<Rightarrow> js ''Reimagined: '' @ prompt s
                                | None \<Rightarrow> prompt s),
                  timestamp = now e\<rparr>)"
  by (auto simp: requestGeneration_def Let_def
           split: fetch_outcome.split api_data.split jsval.split)

lemma awaitConfirmation_timeout:
  "\<not> isConfirmed h \<Longrightarrow>
     awaitConfirmation e h s =
       (Inl timeoutError,
        [SendTransaction ethPayment,
         ToastMessage (js ''Processing payment...'')
                      (js ''Paying 0.00005 ETH for image generation'')]
        @ replicate maxAttempts (Sleep 1000))"
  by (simp add: awaitConfirmation_def pollLoop_unconfirmed del: pollLoop.simps)

lemma awaitConfirmation_confirmed:
  "isConfirmed h \<Longrightarrow>
     awaitConfirmation e h s =
       (fst (requestGeneration e s),
        [SendTransaction ethPayment,
         ToastMessage (js ''Processing payment...'')
                      (js ''Paying 0.00005 ETH for image generation''),
         Fetch (js ''/api/generate'')
           \<lparr>fd_prompt = Some (prompt s), fd_image = uploadedImage s\<rparr>])"
  using requestGeneration_effects [of e s]
  by (cases "requestGeneration e s") (simp add: awaitConfirmation_def)

lemma awaitConfirmation_frame:
  "fst (awaitConfirmation e h (s\<lparr>isGenerating := a, transaction := b, toastId := c\<rparr>))
     = (if isConfirmed h then fst (requestGeneration e s) else Inl timeoutError)"
proof -
  have "requestGeneration e (s\<lparr>isGenerating := a, transaction := b, toastId := c\<rparr>)
          = requestGeneration e s"
    by (simp add: requestGeneration_def Let_def
           split: fetch_outcome.split api_data.split jsval.split option.split)
  then show ?thesis
    by (simp add: awaitConfirmation_def Let_def case_prod_beta)
qed

lemma settle_Inl:
  "settle (Inl t) s = (Failed t, s, [ConsoleError t, ToastError (catchMessage t)])"
  by (simp add: settle_def)

lemma settle_generationCalls: "generationCalls (snd (snd (settle r s))) = []"
  by (cases r) (simp_all add: settle_def)

lemma cleanup_generationCalls: "generationCalls (snd (cleanup c s)) = []"
  by (simp add: cleanup_def Let_def split: option.split)

lemma cleanup_errorToasts: "errorToasts (snd (cleanup c s)) = []"
  by (simp add: cleanup_def Let_def split: option.split)

lemma cleanup_sleeps: "filter (\<lambda>x. x = Sleep k) (snd (cleanup c s)) = []"
  by (simp add: cleanup_def Let_def split: option.split)

subsection \<open>The two handlers\<close>

lemma handleGenerate_rejected:
  assumes "trim (prompt s) = [] \<or> \<not> truthyStr (address h)"
  shows "handleGenerate e h s =
     (ValidationRejected, s,
      [ToastError (if trim (prompt s) = [] then js ''Please enter a prompt''
                   else js ''Please connect your wallet first'')])"
  using assms by (auto simp: handleGenerate_def)

lemma handleGenerate_fixedDelay_rejected:
  assumes "trim (prompt s) = [] \<or> \<not> truthyStr (address h)"
  shows "handleGenerate_fixedDelay u e h s =
     (ValidationRejected, s,
      [ToastError (if trim (prompt s) = [] then js ''Please enter a prompt''
                   else js ''Please connect your wallet first'')])"
  using assms by (auto simp: handleGenerate_fixedDelay_def)

lemma handleGenerate_validated:
  assumes "trim (prompt s) \<noteq> []" and "truthyStr (address h)"
  shows "handleGenerate e h s =
     (let s1 = s\<lparr>isGenerating := True, transaction := Some ethPayment,
                  toastId := Some (toastReturns e)\<rparr>;
          a = awaitConfirmation e h s1;
          b = settle (fst a) s1;
          c = cleanup (toastId s) (fst (snd b))
      in (fst b, fst c, snd a @ snd (snd b) @ snd c))"
  using assms by (simp add: handleGenerate_def Let_def case_prod_beta)

lemma handleGenerate_fixedDelay_validated:
  assumes "trim (prompt s) \<noteq> []" and "truthyStr (address h)"
  shows "handleGenerate_fixedDelay u e h s =
     (let s1 = s\<lparr>isGenerating := True, transaction := Some (usdcPayment u)\<rparr>;
          b = settle (fst (requestGeneration e s)) s1
      in (fst b, (fst (snd b))\<lparr>isGenerating := False, transaction := None\<rparr>,
          [SendTransaction (usdcPayment u), Sleep 1000,
           Fetch (js ''/api/generate'')
             \<lparr>fd_prompt = Some (prompt s), fd_image = uploadedImage s\<rparr>]
          @ snd (snd b)))"
  using assms requestGeneration_effects [of e s]
  by (simp add: handleGenerate_fixedDelay_def Let_def case_prod_beta requestGeneration_frame)

lemma handleGenerate_exit:
  "fst (handleGenerate e h s) =
     (if trim (prompt s) = [] \<or> \<not> truthyStr (address h) then ValidationRejected
      else if \<not> isConfirmed h then Failed timeoutError
      else (case fst (requestGeneration e s) of
              Inl t \<Rightarrow> Failed t | Inr img \<Rightarrow> Succeeded img))"
proof (cases "trim (prompt s) = [] \<or> \<not> truthyStr (address h)")
  case True
  then show ?thesis by (simp add: handleGenerate_rejected)
next
  case False
  then show ?thesis
    by (simp add: handleGenerate_validated Let_def awaitConfirmation_frame settle_def
          split: sum.split)
qed

lemma handleGenerate_fixedDelay_exit:
  "fst (handleGenerate_fixedDelay u e h s) =
     (if trim (prompt s) = [] \<or> \<not> truthyStr (address h) then ValidationRejected
      else (case fst (requestGeneration e s) of
              Inl t \<Rightarrow> Failed t | Inr img \<Rightarrow> Succeeded img))"
proof (cases "trim (prompt s) = [] \<or> \<not> truthyStr (address h)")
  case True
  then show ?thesis by (simp add: handleGenerate_fixedDelay_rejected)
next
  case False
  then show ?thesis
    by (simp add: handleGenerate_fixedDelay_validated Let_def settle_def split: sum.split)
qed

lemma handleGenerate_calls:
  "generationCalls (snd (snd (handleGenerate e h s))) =
     (if trim (prompt s) \<noteq> [] \<and> truthyStr (address h) \<and> isConfirmed h
      then [\<lparr>fd_prompt = Some (prompt s), fd_image = uploadedImage s\<rparr>] else [])"
proof (cases "trim (prompt s) \<noteq> [] \<and> truthyStr (address h)")
  case False
  then show ?thesis by (auto simp: handleGenerate_rejected)
next
  case True
  then show ?thesis
    by (cases "isConfirmed h")
       (simp_all add: handleGenerate_validated awaitConfirmation_confirmed
          awaitConfirmation_timeout Let_def generationCalls_append generationCalls_sleeps
          settle_generationCalls cleanup_generationCalls)
qed

lemma handleGenerate_fixedDelay_calls:
  "generationCalls (snd (snd (handleGenerate_fixedDelay u e h s))) =
     (if trim (prompt s) \<noteq> [] \<and> truthyStr (address h)
      then [\<lparr>fd_prompt = Some (prompt s), fd_image = uploadedImage s\<rparr>] else [])"
proof (cases "trim (prompt s) \<noteq> [] \<and> truthyStr (address h)")
  case False
  then show ?thesis by (auto simp: handleGenerate_fixedDelay_rejected)
next
  case True
  then show ?thesis
    by (simp add: handleGenerate_fixedDelay_validated Let_def generationCalls_append
          settle_generationCalls)
qed

lemma handleGenerate_results:
  "generationHistory (fst (snd (handleGenerate e h s)))
     = (case fst (handleGenerate e h s) of
          Succeeded img \<Rightarrow> img # take 4 (generationHistory s)
        | _ \<Rightarrow> generationHistory s)
   \<and> generatedImage (fst (snd (handleGenerate e h s)))
     = (case fst (handleGenerate e h s) of
          Succeeded img \<Rightarrow> Some img
        | _ \<Rightarrow> generatedImage s)"
proof (cases "trim (prompt s) = [] \<or> \<not> truthyStr (address h)")
  case True
  then show ?thesis by (simp add: handleGenerate_rejected)
next
  case False
  then show ?thesis
    by (simp add: handleGenerate_validated Let_def awaitConfirmation_frame settle_def
          cleanup_def split: sum.split option.split)
qed

lemma handleGenerate_fixedDelay_results:
  "generationHistory (fst (snd (handleGenerate_fixedDelay u e h s)))
     = (case fst (handleGenerate_fixedDelay u e h s) of
          Succeeded img \<Rightarrow> img # take 4 (generationHistory s)
        | _ \<Rightarrow> generationHistory s)
   \<and> generatedImage (fst (snd (handleGenerate_fixedDelay u e h s)))
     = (case fst (handleGenerate_fixedDelay u e h s) of
          Succeeded img \<Rightarrow> Some img
        | _ \<Rightarrow> generatedImage s)"
proof (cases "trim (prompt s) = [] \<or> \<not> truthyStr (address h)")
  case True
  then show ?thesis by (simp add: handleGenerate_fixedDelay_rejected)
next
  case False
  then show ?thesis
    by (simp add: handleGenerate_fixedDelay_validated Let_def settle_def split: sum.split)
qed

lemma handleGenerate_inputs_kept:
  "prompt (fst (snd (handleGenerate e h s))) = prompt s
   \<and> uploadedImage (fst (snd (handleGenerate e h s))) = uploadedImage s"
proof (cases "trim (prompt s) = [] \<or> \<not> truthyStr (address h)")
  case True
  then show ?thesis by (simp add: handleGenerate_rejected)
next
  case False
  then show ?thesis
    by (simp add: handleGenerate_validated Let_def awaitConfirmation_frame settle_def
          cleanup_def split: sum.split option.split)
qed

text \<open>
  What the \<^verbatim>\<open>finally\<close> block of the polling variant leaves behind: the generating flag and
  the transaction are idle; the toast identifier is cleared only if the handler was
  created by a render that already held one.
\<close>

lemma handleGenerate_resets_flags:
  assumes "trim (prompt s) \<noteq> []" and "truthyStr (address h)"
  shows "isGenerating (fst (snd (handleGenerate e h s))) = False
       \<and> transaction (fst (snd (handleGenerate e h s))) = None
       \<and> toastId (fst (snd (handleGenerate e h s)))
           = (if truthyId (toastId s) then None else Some (toastReturns e))"
  using assms
  by (cases "fst (awaitConfirmation e h (s\<lparr>isGenerating := True, transaction := Some ethPayment,
                  toastId := Some (toastReturns e)\<rparr>))")
     (simp_all add: handleGenerate_validated Let_def cleanup_def settle_def split: option.split)

lemma handleGenerate_failure_toast:
  assumes "fst (handleGenerate e h s) = Failed t"
  shows "errorToasts (snd (snd (handleGenerate e h s))) = [catchMessage t]"
proof -
  from assms have v: "trim (prompt s) \<noteq> []" "truthyStr (address h)"
    by (auto simp: handleGenerate_def split: if_splits)
  show ?thesis
  proof (cases "isConfirmed h")
    case False
    with v assms show ?thesis
      by (simp add: handleGenerate_validated awaitConfirmation_timeout settle_Inl Let_def
          errorToasts_append errorToasts_sleeps cleanup_errorToasts)
  next
    case True
    with v assms show ?thesis
      by (cases "fst (requestGeneration e (s\<lparr>isGenerating := True,
                  transaction := Some ethPayment, toastId := Some (toastReturns e)\<rparr>))")
         (simp_all add: handleGenerate_validated awaitConfirmation_confirmed settle_def Let_def
          errorToasts_append cleanup_errorToasts)
  qed
qed

subsection \<open>Runs of the component\<close>

lemma take_push: "n \<le> 5 \<Longrightarrow> take n (x # take 4 h) = take n (x # h)"
  by (cases n) simp_all

lemma pollingStep_cases:
  "(generationHistory (pollingStep ev s) = generationHistory s
      \<and> pollingProduced (ev # evs) s = pollingProduced evs (pollingStep ev s))
   \<or> (\<exists>img. generationHistory (pollingStep ev s) = img # take 4 (generationHistory s)
      \<and> pollingProduced (ev # evs) s = img # pollingProduced evs (pollingStep ev s))"
proof (cases ev)
  case (Generate e h)
  then show ?thesis
    using handleGenerate_results [of e h s]
    by (cases "fst (handleGenerate e h s)") simp_all
qed (simp_all add: handleFileUpload_def readerOnload_def clearUploadedImage_def
       selectFromHistory_def confirmationEffect_def split: option.split)

lemma fixedDelayStep_cases:
  "(generationHistory (fixedDelayStep u ev s) = generationHistory s
      \<and> fixedDelayProduced u (ev # evs) s = fixedDelayProduced u evs (fixedDelayStep u ev s))
   \<or> (\<exists>img. generationHistory (fixedDelayStep u ev s) = img # take 4 (generationHistory s)
      \<and> fixedDelayProduced u (ev # evs) s
          = img # fixedDelayProduced u evs (fixedDelayStep u ev s))"
proof (cases ev)
  case (Generate e h)
  then show ?thesis
    using handleGenerate_fixedDelay_results [of u e h s]
    by (cases "fst (handleGenerate_fixedDelay u e h s)") simp_all
qed (simp_all add: handleFileUpload_def readerOnload_def clearUploadedImage_def
       selectFromHistory_fixedDelay_def split: option.split)

lemma pollingRun_history:
  "length (generationHistory s) \<le> 5 \<Longrightarrow>
     generationHistory (pollingRun evs s)
       = take 5 (rev (pollingProduced evs s) @ generationHistory s)"
proof (induction evs arbitrary: s)
  case Nil
  then show ?case by simp
next
  case (Cons ev evs)
  from pollingStep_cases [of ev s evs] show ?case
  proof (elim disjE conjE exE)
    assume same: "generationHistory (pollingStep ev s) = generationHistory s"
      and prod: "pollingProduced (ev # evs) s = pollingProduced evs (pollingStep ev s)"
    from same Cons.prems have "length (generationHistory (pollingStep ev s)) \<le> 5"
      by simp
    from Cons.IH [OF this] same prod show ?thesis
      by (simp del: pollingProduced.simps pollingStep.simps)
  next
    fix img
    assume push: "generationHistory (pollingStep ev s) = img # take 4 (generationHistory s)"
      and prod: "pollingProduced (ev # evs) s = img # pollingProduced evs (pollingStep ev s)"
    from push have "length (generationHistory (pollingStep ev s)) \<le> 5"
      by simp
    from Cons.IH [OF this] push prod show ?thesis
      by (simp add: take_push del: pollingProduced.simps pollingStep.simps)
  qed
qed

lemma fixedDelayRun_history:
  "length (generationHistory s) \<le> 5 \<Longrightarrow>
     generationHistory (fixedDelayRun u evs s)
       = take 5 (rev (fixedDelayProduced u evs s) @ generationHistory s)"
proof (induction evs arbitrary: s)
  case Nil
  then show ?case by simp
next
  case (Cons ev evs)
  from fixedDelayStep_cases [of u ev s evs] show ?case
  proof (elim disjE conjE exE)
    assume same: "generationHistory (fixedDelayStep u ev s) = generationHistory s"
      and prod: "fixedDelayProduced u (ev # evs) s
                   = fixedDelayProduced u evs (fixedDelayStep u ev s)"
    from same Cons.prems have "length (generationHistory (fixedDelayStep u ev s)) \<le> 5"
      by simp
    from Cons.IH [OF this] same prod show ?thesis
      by (simp del: fixedDelayProduced.simps fixedDelayStep.simps)
  next
    fix img
    assume push: "generationHistory (fixedDelayStep u ev s)
                    = img # take 4 (generationHistory s)"
      and prod: "fixedDelayProduced u (ev # evs) s
                   = img # fixedDelayProduced u evs (fixedDelayStep u ev s)"
    from push have "length (generationHistory (fixedDelayStep u ev s)) \<le> 5"
      by simp
    from Cons.IH [OF this] push prod show ?thesis
      by (simp add: take_push del: fixedDelayProduced.simps fixedDelayStep.simps)
  qed
qed

lemma click_state:
  assumes "prompt s = js ''a red bicycle''" and "uploadedImage s = None"
  shows "fst (handleGenerate (serviceAt n)
                (wallet True) s)
           = Succeeded \<lparr>imageUrl = js ''https://img/1.png'', gen_prompt = js ''a red bicycle'',
                        timestamp = n\<rparr>
       \<and> prompt (pollingStep (click n) s) = js ''a red bicycle''
       \<and> uploadedImage (pollingStep (click n) s) = None"
proof -
  have v: "trim (prompt s) \<noteq> []" and w: "truthyStr (address (wallet True))"
    using assms red_bicycle by (simp_all add: wallet_def js_def)
  have c: "isConfirmed (wallet True)" by (simp add: wallet_def)
  have r: "fst (requestGeneration
                  (serviceAt n) s)
             = Inr \<lparr>imageUrl = js ''https://img/1.png'', gen_prompt = js ''a red bicycle'',
                        timestamp = n\<rparr>"
    using assms by (simp add: requestGeneration_def serviceAt_def imageAnswer_def js_def)
  show ?thesis
    using v w c r assms
    by (simp add: handleGenerate_exit click_def handleGenerate_inputs_kept)
qed

lemma sixGenerations_produced:
  "map timestamp (pollingProduced sixGenerations initialPollingState) = [1, 2, 3, 4, 5, 6]"
proof -
  define s0 where "s0 = pollingStep (SetPrompt (js ''a red bicycle'')) initialPollingState"
  define s1 where "s1 = pollingStep (click 1) s0"
  define s2 where "s2 = pollingStep (click 2) s1"
  define s3 where "s3 = pollingStep (click 3) s2"
  define s4 where "s4 = pollingStep (click 4) s3"
  define s5 where "s5 = pollingStep (click 5) s4"
  have p0: "prompt s0 = js ''a red bicycle'' \<and> uploadedImage s0 = None"
    by (simp add: s0_def initialPollingState_def)
  note k1 = click_state [OF conjunct1 [OF p0] conjunct2 [OF p0], of 1, folded s1_def]
  note k2 = click_state [OF conjunct1 [OF conjunct2 [OF k1]] conjunct2 [OF conjunct2 [OF k1]],
      of 2, folded s2_def]
  note k3 = click_state [OF conjunct1 [OF conjunct2 [OF k2]] conjunct2 [OF conjunct2 [OF k2]],
      of 3, folded s3_def]
  note k4 = click_state [OF conjunct1 [OF conjunct2 [OF k3]] conjunct2 [OF conjunct2 [OF k3]],
      of 4, folded s4_def]
  note k5 = click_state [OF conjunct1 [OF conjunct2 [OF k4]] conjunct2 [OF conjunct2 [OF k4]],
      of 5, folded s5_def]
  note k6 = click_state [OF conjunct1 [OF conjunct2 [OF k5]] conjunct2 [OF conjunct2 [OF k5]],
      of 6]
  have "pollingProduced sixGenerations initialPollingState
          = succeeded (fst (handleGenerate
              (serviceAt 1) (wallet True) s0))
          @ succeeded (fst (handleGenerate
              (serviceAt 2) (wallet True) s1))
          @ succeeded (fst (handleGenerate
              (serviceAt 3) (wallet True) s2))
          @ succeeded (fst (handleGenerate
              (serviceAt 4) (wallet True) s3))
          @ succeeded (fst (handleGenerate
              (serviceAt 5) (wallet True) s4))
          @ succeeded (fst (handleGenerate
              (serviceAt 6) (wallet True) s5))"
    by (simp add: sixGenerations_def click_def s0_def s1_def s2_def s3_def s4_def s5_def
          del: pollingStep.simps)
  with k1 k2 k3 k4 k5 k6 show ?thesis by simp
qed

subsection \<open>The endpoint\<close>

lemma generate_response:
  "fst (generate sv p uploaded) =
     (case replicateRun sv (js ''google/nano-banana'')
             (case uploaded of
                Some f \<Rightarrow>
                  \<lparr>in_prompt = p,
                   image_input =
                     [js ''data:''
                      @ (if file_type f = [] then js ''image/png'' else file_type f)
                      @ js '';base64,'' @ toBase64 sv (file_bytes f)],
                   aspect_ratio = js ''1:1'', output_format = js ''png''\<rparr>
              | None \<Rightarrow>
                  \<lparr>in_prompt = p, image_input = [],
                   aspect_ratio = js ''1:1'', output_format = js ''png''\<rparr>) of
        RunRejects t \<Rightarrow> serverCatch t
      | UrlThrows t \<Rightarrow> serverCatch t
      | UrlReturns url \<Rightarrow>
          \<lparr>status = 200,
           body = SuccessBody True url
                    (case uploaded of Some f \<Rightarrow> js ''Reimagined: '' @ p | None \<Rightarrow> p)\<rparr>)"
  by (simp add: generate_def Let_def split: run_outcome.split)

lemma generate_shape:
  "(\<exists>url. fst (generate sv p uploaded)
            = \<lparr>status = 200,
               body = SuccessBody True url
                        (case uploaded of Some f \<Rightarrow> js ''Reimagined: '' @ p | None \<Rightarrow> p)\<rparr>)
   \<or> (\<exists>t. fst (generate sv p uploaded) = serverCatch t)"
  by (cases "replicateRun sv (js ''google/nano-banana'')
             (case uploaded of
                Some f \<Rightarrow>
                  \<lparr>in_prompt = p,
                   image_input =
                     [js ''data:''
                      @ (if file_type f = [] then js ''image/png'' else file_type f)
                      @ js '';base64,'' @ toBase64 sv (file_bytes f)],
                   aspect_ratio = js ''1:1'', output_format = js ''png''\<rparr>
              | None \<Rightarrow>
                  \<lparr>in_prompt = p, image_input = [],
                   aspect_ratio = js ''1:1'', output_format = js ''png''\<rparr>)")
     (auto simp: generate_response)

lemma POST_cases:
  "(\<exists>fd p url. formData sv = Inr fd \<and> fd_prompt fd = Some p \<and> p \<noteq> []
       \<and> truthyStr (apiToken sv)
       \<and> fst (POST sv)
           = \<lparr>status = 200,
              body = SuccessBody True url
                       (case fd_image fd of Some f \<Rightarrow> js ''Reimagined: '' @ p | None \<Rightarrow> p)\<rparr>)
   \<or> (\<exists>fd. formData sv = Inr fd \<and> \<not> truthyStr (fd_prompt fd) \<and> POST sv = promptRequired)
   \<or> (\<exists>fd. formData sv = Inr fd \<and> truthyStr (fd_prompt fd) \<and> \<not> truthyStr (apiToken sv)
         \<and> POST sv = tokenMissing)
   \<or> (\<exists>t. fst (POST sv) = serverCatch t)"
proof (cases "formData sv")
  case (Inl t)
  then show ?thesis by (auto simp: POST_def)
next
  case (Inr fd)
  show ?thesis
  proof (cases "fd_prompt fd")
    case None
    with Inr show ?thesis by (simp add: POST_def)
  next
    case (Some p)
    show ?thesis
    proof (cases "p = []")
      case True
      with Inr Some show ?thesis by (simp add: POST_def)
    next
      case False
      show ?thesis
      proof (cases "truthyStr (apiToken sv)")
        case False
        with Inr Some \<open>p \<noteq> []\<close> show ?thesis by (simp add: POST_def)
      next
        case True
        with Inr Some \<open>p \<noteq> []\<close> generate_shape [of sv p "fd_image fd"] show ?thesis
          by (auto simp: POST_def)
      qed
    qed
  qed
qed

subsection \<open>The claims\<close>

text \<open>
  C1. In the polling variant, an invocation that passes validation and never reads the
  confirmation flag as true sleeps thirty times, ends with the payment-timeout error,
  shows that message, and makes no call to the generation endpoint.
\<close>

theorem timeout_makes_no_generation_call:
  assumes "trim (prompt s) \<noteq> []" and "truthyStr (address h)" and "\<not> isConfirmed h"
  shows "fst (handleGenerate e h s) = Failed timeoutError
       \<and> errorToasts (snd (snd (handleGenerate e h s)))
           = [js ''Payment confirmation timeout - transaction may have failed'']
       \<and> length (filter (\<lambda>x. x = Sleep 1000) (snd (snd (handleGenerate e h s)))) = 30
       \<and> generationCalls (snd (snd (handleGenerate e h s))) = []"
  using assms
  by (simp add: handleGenerate_validated awaitConfirmation_timeout settle_Inl Let_def
        catchMessage_def timeoutError_def maxAttempts_def
        errorToasts_append generationCalls_append errorToasts_sleeps generationCalls_sleeps
        cleanup_generationCalls cleanup_errorToasts cleanup_sleeps)

text \<open>The red bicycle with a connected wallet whose payment is not confirmed.\<close>

theorem timeout_makes_no_generation_call_witness:
  "trim (prompt (typed ''a red bicycle'')) \<noteq> []
   \<and> truthyStr (address (wallet False)) \<and> \<not> isConfirmed (wallet False)
   \<and> fst (handleGenerate (service imageAnswer) (wallet False) (typed ''a red bicycle''))
       = Failed timeoutError
   \<and> generationCalls
        (snd (snd (handleGenerate (service imageAnswer) (wallet False) (typed ''a red bicycle''))))
       = []"
proof -
  have v: "trim (prompt (typed ''a red bicycle'')) \<noteq> []"
    using red_bicycle by (simp add: typed_def)
  have a: "truthyStr (address (wallet False))" and c: "\<not> isConfirmed (wallet False)"
    by (simp_all add: wallet_def js_def)
  from timeout_makes_no_generation_call [OF v a c, of "service imageAnswer"] v a c
  show ?thesis by simp
qed

text \<open>
  The handler reads the confirmation flag of the render that created it. When the payment
  of the red bicycle is confirmed three seconds after the click, the render of that moment
  holds a true flag, but the invocation started at the click still reads false at each of
  its polls: it sleeps thirty times, ends with the timeout error and makes no generation
  call.
\<close>

lemma confirmation_during_wait_is_not_read:
  "isConfirmed (walletConfirmedAfter 3 3)
   \<and> fst (handleGenerate (service imageAnswer) (walletConfirmedAfter 3 0)
            (typed ''a red bicycle''))
       = Failed timeoutError
   \<and> length (filter (\<lambda>x. x = Sleep 1000)
        (snd (snd (handleGenerate (service imageAnswer) (walletConfirmedAfter 3 0)
                     (typed ''a red bicycle''))))) = 30
   \<and> generationCalls
        (snd (snd (handleGenerate (service imageAnswer) (walletConfirmedAfter 3 0)
                     (typed ''a red bicycle''))))
       = []"
proof -
  have v: "trim (prompt (typed ''a red bicycle'')) \<noteq> []"
    using red_bicycle by (simp add: typed_def)
  have a: "truthyStr (address (walletConfirmedAfter 3 0))"
    and c: "\<not> isConfirmed (walletConfirmedAfter 3 0)"
    and l: "isConfirmed (walletConfirmedAfter 3 3)"
    by (simp_all add: walletConfirmedAfter_def js_def)
  from v a c l show ?thesis
    by (simp add: handleGenerate_validated awaitConfirmation_timeout settle_Inl Let_def
          maxAttempts_def generationCalls_append generationCalls_sleeps
          cleanup_generationCalls cleanup_sleeps)
qed




text \<open>
  C3. The claim is that every exit after validation resets the generating flag, the
  transaction state and the pending toast identifier. In the fresh component the payment
  of the red bicycle times out: the handler leaves through the timeout error, and the
  toast identifier, which was empty before the call, holds the identifier of the payment
  toast afterwards; the confirmation effect does not clear it either, since the payment
  is not confirmed.
\<close>

theorem timeout_leaves_toast_identifier:
  "fst (handleGenerate (service imageAnswer) (wallet False) (typed ''a red bicycle''))
     = Failed timeoutError
   \<and> toastId (typed ''a red bicycle'') = None
   \<and> toastId (fst (snd (handleGenerate (service imageAnswer) (wallet False)
                          (typed ''a red bicycle''))))
       = Some (IdNumber 1)
   \<and> fst (confirmationEffect (wallet False)
        (fst (snd (handleGenerate (service imageAnswer) (wallet False) (typed ''a red bicycle'')))))
       = fst (snd (handleGenerate (service imageAnswer) (wallet False) (typed ''a red bicycle'')))"
proof -
  have v: "trim (prompt (typed ''a red bicycle'')) \<noteq> []"
    using red_bicycle by (simp add: typed_def)
  have a: "truthyStr (address (wallet False))" and c: "\<not> isConfirmed (wallet False)"
    by (simp_all add: wallet_def js_def)
  have i: "toastId (typed ''a red bicycle'') = None"
    by (simp add: typed_def initialPollingState_def)
  have x: "fst (handleGenerate (service imageAnswer) (wallet False) (typed ''a red bicycle''))
     = Failed timeoutError"
    using v a c by (simp add: handleGenerate_exit)
  have t: "toastId (fst (snd (handleGenerate (service imageAnswer) (wallet False)
                          (typed ''a red bicycle'')))) = Some (IdNumber 1)"
    using handleGenerate_resets_flags [OF v a, of "service imageAnswer"] i
    by (simp add: service_def)
  show ?thesis using x t i c
    by (simp add: confirmationEffect_def)
qed

text \<open>
  C4. The two variants are not equivalent. In the polling variant a generation call, and
  so a successful exit, happens only when the confirmation flag is read as true. In the
  fixed-delay variant every validated invocation submits the payment, sleeps one second
  and makes the generation call, whatever the flag. With an unconfirmed payment the
  polling variant makes no call and the fixed-delay variant makes one.
\<close>

theorem variants_not_equivalent:
  "(generationCalls (snd (snd (handleGenerate e h s))) \<noteq> [] \<longrightarrow> isConfirmed h)
   \<and> (fst (handleGenerate e h s) = Succeeded img \<longrightarrow> isConfirmed h)
   \<and> (trim (prompt s2) \<noteq> [] \<and> truthyStr (address h) \<longrightarrow>
        take 3 (snd (snd (handleGenerate_fixedDelay u e h s2)))
          = [SendTransaction (usdcPayment u), Sleep 1000,
             Fetch (js ''/api/generate'')
               \<lparr>fd_prompt = Some (prompt s2), fd_image = uploadedImage s2\<rparr>]
        \<and> length (generationCalls (snd (snd (handleGenerate_fixedDelay u e h s2)))) = 1)
   \<and> (trim (prompt s) \<noteq> [] \<and> trim (prompt s2) \<noteq> [] \<and> truthyStr (address h)
        \<and> \<not> isConfirmed h \<longrightarrow>
        length (generationCalls (snd (snd (handleGenerate e h s)))) = 0
        \<and> length (generationCalls (snd (snd (handleGenerate_fixedDelay u e h s2)))) = 1)"
proof -
  have polling: "generationCalls (snd (snd (handleGenerate e h s))) \<noteq> [] \<longrightarrow> isConfirmed h"
    by (simp add: handleGenerate_calls)
  have result: "fst (handleGenerate e h s) = Succeeded img \<longrightarrow> isConfirmed h"
    by (auto simp: handleGenerate_exit timeoutError_def split: if_splits)
  have fixed: "trim (prompt s2) \<noteq> [] \<and> truthyStr (address h) \<longrightarrow>
        take 3 (snd (snd (handleGenerate_fixedDelay u e h s2)))
          = [SendTransaction (usdcPayment u), Sleep 1000,
             Fetch (js ''/api/generate'')
               \<lparr>fd_prompt = Some (prompt s2), fd_image = uploadedImage s2\<rparr>]"
    by (simp add: handleGenerate_fixedDelay_validated Let_def)
  have once: "trim (prompt s2) \<noteq> [] \<and> truthyStr (address h) \<longrightarrow>
        length (generationCalls (snd (snd (handleGenerate_fixedDelay u e h s2)))) = 1"
    by (simp add: handleGenerate_fixedDelay_calls)
  have none: "\<not> isConfirmed h \<longrightarrow>
        length (generationCalls (snd (snd (handleGenerate e h s)))) = 0"
    by (simp add: handleGenerate_calls)
  from polling result fixed once none show ?thesis by blast
qed

text \<open>The red bicycle in both variants, with the payment unconfirmed and confirmed.\<close>

theorem variants_not_equivalent_witness:
  "trim (prompt (typed ''a red bicycle'')) \<noteq> []
   \<and> trim (prompt (typedFixedDelay ''a red bicycle'')) \<noteq> []
   \<and> truthyStr (address (wallet False)) \<and> \<not> isConfirmed (wallet False)
   \<and> length (generationCalls (snd (snd
        (handleGenerate (service imageAnswer) (wallet False) (typed ''a red bicycle''))))) = 0
   \<and> length (generationCalls (snd (snd
        (handleGenerate_fixedDelay testToken (service imageAnswer) (wallet False)
           (typedFixedDelay ''a red bicycle''))))) = 1
   \<and> take 3 (snd (snd
        (handleGenerate_fixedDelay testToken (service imageAnswer) (wallet False)
           (typedFixedDelay ''a red bicycle''))))
       = [SendTransaction (usdcPayment testToken), Sleep 1000,
          Fetch (js ''/api/generate'')
            \<lparr>fd_prompt = Some (js ''a red bicycle''), fd_image = None\<rparr>]
   \<and> generationCalls (snd (snd
        (handleGenerate (service imageAnswer) (wallet True) (typed ''a red bicycle''))))
       \<noteq> []
   \<and> fst (handleGenerate (service imageAnswer) (wallet True) (typed ''a red bicycle''))
       = Succeeded \<lparr>imageUrl = js ''https://img/1.png'', gen_prompt = js ''a red bicycle'',
                    timestamp = 0\<rparr>
   \<and> isConfirmed (wallet True)"
proof -
  have v: "trim (prompt (typed ''a red bicycle'')) \<noteq> []"
    using red_bicycle by (simp add: typed_def)
  have v2: "trim (prompt (typedFixedDelay ''a red bicycle'')) \<noteq> []"
    using red_bicycle by (simp add: typedFixedDelay_def)
  have a: "truthyStr (address (wallet False))" and c: "\<not> isConfirmed (wallet False)"
    and a': "truthyStr (address (wallet True))"
    by (simp_all add: wallet_def js_def)
  have p: "prompt (typedFixedDelay ''a red bicycle'') = js ''a red bicycle''"
    and i: "uploadedImage (typedFixedDelay ''a red bicycle'') = None"
    by (simp_all add: typedFixedDelay_def initialState_def)
  have r: "fst (requestGeneration (service imageAnswer) (typed ''a red bicycle''))
             = Inr \<lparr>imageUrl = js ''https://img/1.png'', gen_prompt = js ''a red bicycle'',
                    timestamp = 0\<rparr>"
    by (simp add: requestGeneration_def service_def imageAnswer_def typed_def
          initialPollingState_def js_def)
  have calls: "generationCalls (snd (snd
        (handleGenerate (service imageAnswer) (wallet True) (typed ''a red bicycle''))))
       \<noteq> []"
    using v a' by (simp add: handleGenerate_calls wallet_def)
  have x: "fst (handleGenerate (service imageAnswer) (wallet True) (typed ''a red bicycle''))
       = Succeeded \<lparr>imageUrl = js ''https://img/1.png'', gen_prompt = js ''a red bicycle'',
                    timestamp = 0\<rparr>"
    using v a' r by (simp add: handleGenerate_exit wallet_def)
  from variants_not_equivalent [where e = "service imageAnswer" and h = "wallet True"
      and s = "typed ''a red bicycle''" and ?s2.0 = "typedFixedDelay ''a red bicycle''"
      and u = testToken
      and img = "\<lparr>imageUrl = js ''https://img/1.png'', gen_prompt = js ''a red bicycle'',
                    timestamp = 0\<rparr>"] calls x
  have confirmed: "isConfirmed (wallet True)"
    by blast
  from variants_not_equivalent [where e = "service imageAnswer" and h = "wallet False"
      and s = "typed ''a red bicycle''" and ?s2.0 = "typedFixedDelay ''a red bicycle''"
      and u = testToken] v v2 a c p i calls x confirmed
  show ?thesis by simp
qed

text \<open>
  C5. In both variants, after any sequence of events on the fresh component the history
  holds the results of the successful generations, newest first, cut to the five newest:
  each result is put in front and the oldest is dropped on overflow, so the history
  never has more than five entries.
\<close>

theorem history_bounded_newest_first:
  "generationHistory (pollingRun evs initialPollingState)
     = take 5 (rev (pollingProduced evs initialPollingState))
   \<and> length (generationHistory (pollingRun evs initialPollingState)) \<le> 5
   \<and> generationHistory (fixedDelayRun u evs initialState)
     = take 5 (rev (fixedDelayProduced u evs initialState))
   \<and> length (generationHistory (fixedDelayRun u evs initialState)) \<le> 5"
proof -
  have a: "generationHistory (pollingRun evs initialPollingState)
     = take 5 (rev (pollingProduced evs initialPollingState))"
    using pollingRun_history [of initialPollingState evs]
    by (simp add: initialPollingState_def)
  have b: "generationHistory (fixedDelayRun u evs initialState)
     = take 5 (rev (fixedDelayProduced u evs initialState))"
    using fixedDelayRun_history [of initialState u evs]
    by (simp add: initialState_def)
  show ?thesis
    by (simp add: a b)
qed

text \<open>Six generations in a row: the history holds the last five, newest first.\<close>

theorem history_bounded_newest_first_witness:
  "map timestamp (generationHistory (pollingRun sixGenerations initialPollingState))
     = [6, 5, 4, 3, 2]"
proof -
  from history_bounded_newest_first [of sixGenerations]
  have "map timestamp (generationHistory (pollingRun sixGenerations initialPollingState))
          = take 5 (rev (map timestamp (pollingProduced sixGenerations initialPollingState)))"
    by (simp add: take_map rev_map)
  then show ?thesis
    by (simp add: sixGenerations_produced)
qed

text \<open>
  C6. When the prompt is empty or consists of white space only, or when no wallet address
  is connected, the handler (of either variant) shows a validation error and returns:
  the state is unchanged, no payment is submitted and no generation call is made.
\<close>

theorem validation_rejects_without_effects:
  assumes "(\<forall>c \<in> set (prompt s). isWhiteSpace c) \<or> \<not> truthyStr (address h)"
  shows "handleGenerate e h s =
           (ValidationRejected, s,
            [ToastError (if trim (prompt s) = [] then js ''Please enter a prompt''
                         else js ''Please connect your wallet first'')])
       \<and> payments (snd (snd (handleGenerate e h s))) = []
       \<and> generationCalls (snd (snd (handleGenerate e h s))) = []
       \<and> handleGenerate_fixedDelay u e h s =
           (ValidationRejected, s,
            [ToastError (if trim (prompt s) = [] then js ''Please enter a prompt''
                         else js ''Please connect your wallet first'')])
       \<and> payments (snd (snd (handleGenerate_fixedDelay u e h s))) = []
       \<and> generationCalls (snd (snd (handleGenerate_fixedDelay u e h s))) = []"
proof -
  from assms have "trim (prompt s) = [] \<or> \<not> truthyStr (address h)"
    by (simp add: trim_empty_iff)
  then show ?thesis
    by (simp add: handleGenerate_rejected handleGenerate_fixedDelay_rejected)
qed

text \<open>A prompt of three spaces with a wallet, and the red bicycle without a wallet.\<close>

theorem validation_rejects_without_effects_witness:
  "list_all isWhiteSpace (prompt (typed ''   ''))
   \<and> handleGenerate (service imageAnswer) (wallet True) (typed ''   '')
       = (ValidationRejected, typed ''   '', [ToastError (js ''Please enter a prompt'')])
   \<and> \<not> truthyStr (address noWallet)
   \<and> handleGenerate (service imageAnswer) noWallet (typed ''a red bicycle'')
       = (ValidationRejected, typed ''a red bicycle'',
          [ToastError (js ''Please connect your wallet first'')])"
proof -
  have w: "\<forall>c \<in> set (prompt (typed ''   '')). isWhiteSpace c"
    by (simp add: typed_def js_def isWhiteSpace_def)
  then have t: "trim (prompt (typed ''   '')) = []"
    by (simp add: trim_empty_iff)
  have n: "\<not> truthyStr (address noWallet)"
    by (simp add: noWallet_def)
  have v: "trim (prompt (typed ''a red bicycle'')) \<noteq> []"
    using red_bicycle by (simp add: typed_def)
  from validation_rejects_without_effects [where s = "typed ''   ''" and h = "wallet True"
      and e = "service imageAnswer" and u = testToken]
    validation_rejects_without_effects [where s = "typed ''a red bicycle''" and h = noWallet
      and e = "service imageAnswer" and u = testToken]
    w t n v
  show ?thesis by (simp add: list_all_iff)
qed

text \<open>
  C7. A file whose MIME type does not start with \<^verbatim>\<open>image/\<close>, or whose size exceeds 10 MiB,
  is rejected with an error and the state (so the uploaded image and the preview) is
  unchanged; an image file of exactly 10 MiB is accepted.
\<close>

theorem upload_validation:
  "(\<not> startsWith (file_type f) (js ''image/'') \<or> file_size f > 10 * 1024 * 1024 \<longrightarrow>
      fst (handleFileUpload (Some f) s) = s
      \<and> (\<exists>m. snd (handleFileUpload (Some f) s) = [ToastError m]))
   \<and> (startsWith (file_type f) (js ''image/'') \<and> file_size f = 10 * 1024 * 1024 \<longrightarrow>
      handleFileUpload (Some f) s =
        (s\<lparr>uploadedImage := Some f\<rparr>,
         [ReadAsDataURL f, ToastSuccess (js ''Image uploaded successfully!'')]))"
  by (simp add: handleFileUpload_def)

lemma pngOfSize_fields:
  "file_size (pngOfSize n) = n \<and> startsWith (file_type (pngOfSize n)) (js ''image/'')"
  by (simp add: pngOfSize_def file_size_def startsWith_def js_def)

text \<open>A text file, a PNG of 10 MiB and one byte, and a PNG of 10 MiB.\<close>

theorem upload_validation_witness:
  "\<not> startsWith (file_type textFile) (js ''image/'')
   \<and> fst (handleFileUpload (Some textFile) initialState) = initialState
   \<and> file_size (pngOfSize 10485761) > 10 * 1024 * 1024
   \<and> fst (handleFileUpload (Some (pngOfSize 10485761)) initialState) = initialState
   \<and> file_size (pngOfSize 10485760) = 10 * 1024 * 1024
   \<and> uploadedImage (fst (handleFileUpload (Some (pngOfSize 10485760)) initialState))
       = Some (pngOfSize 10485760)"
proof -
  have t: "\<not> startsWith (file_type textFile) (js ''image/'')"
    by (simp add: textFile_def startsWith_def js_def)
  from upload_validation [of textFile initialState]
    upload_validation [of "pngOfSize 10485761" initialState]
    upload_validation [of "pngOfSize 10485760" initialState]
    t pngOfSize_fields [of 10485761] pngOfSize_fields [of 10485760]
  show ?thesis by simp
qed

text \<open>
  C8 as claimed fails where the API token is missing: a request with a prompt and no
  configured token is answered with status 500 and an error string, without a details
  field.
\<close>

theorem missing_token_answer_has_no_details:
  "status (fst (POST (request (Some (js ''a red bicycle'')) None None
                        (UrlReturns (js ''https://img/1.png''))))) = 500
   \<and> resp_details (body (fst (POST (request (Some (js ''a red bicycle'')) None None
                        (UrlReturns (js ''https://img/1.png'')))))) = None"
  by (simp add: POST_def request_def tokenMissing_def js_def)

text \<open>
  C8, amended. A success answer has status 200 and is a body with the success flag and an
  image URL. A missing or empty prompt is answered with status 400 and an error string,
  and no model call is made. A missing API token is answered with status 500 and an error
  string, without details, and no model call is made. Every other failure is answered
  with status 500, the error string and a details field.
\<close>

theorem POST_responses:
  "(status (fst (POST sv)) = 200 \<longrightarrow>
      (\<exists>url p. body (fst (POST sv)) = SuccessBody True url p))
   \<and> (formData sv = Inr fd \<and> \<not> truthyStr (fd_prompt fd) \<longrightarrow>
      fst (POST sv) = \<lparr>status = 400, body = ErrorBody (js ''Prompt is required'') None\<rparr>
      \<and> modelCalls (snd (POST sv)) = [])
   \<and> (formData sv = Inr fd \<and> truthyStr (fd_prompt fd) \<and> \<not> truthyStr (apiToken sv) \<longrightarrow>
      fst (POST sv) =
        \<lparr>status = 500,
         body = ErrorBody
           (js ''Server configuration error: Replicate API token not configured'') None\<rparr>
      \<and> modelCalls (snd (POST sv)) = [])
   \<and> (status (fst (POST sv)) \<noteq> 200
       \<and> (\<forall>fd'. formData sv = Inr fd' \<longrightarrow> truthyStr (fd_prompt fd') \<and> truthyStr (apiToken sv))
      \<longrightarrow> status (fst (POST sv)) = 500
          \<and> (\<exists>d. body (fst (POST sv)) = ErrorBody (js ''Failed to generate image'') (Some d)))"
proof -
  have success: "status (fst (POST sv)) = 200 \<longrightarrow>
      (\<exists>url p. body (fst (POST sv)) = SuccessBody True url p)"
    using POST_cases [of sv]
    by (auto simp: promptRequired_def tokenMissing_def serverCatch_def)
  have prompt: "formData sv = Inr fd \<and> \<not> truthyStr (fd_prompt fd) \<longrightarrow>
      fst (POST sv) = \<lparr>status = 400, body = ErrorBody (js ''Prompt is required'') None\<rparr>
      \<and> modelCalls (snd (POST sv)) = []"
    by (cases "fd_prompt fd") (auto simp: POST_def promptRequired_def)
  have token: "formData sv = Inr fd \<and> truthyStr (fd_prompt fd) \<and> \<not> truthyStr (apiToken sv) \<longrightarrow>
      fst (POST sv) =
        \<lparr>status = 500,
         body = ErrorBody
           (js ''Server configuration error: Replicate API token not configured'') None\<rparr>
      \<and> modelCalls (snd (POST sv)) = []"
    by (cases "fd_prompt fd") (auto simp: POST_def tokenMissing_def)
  have other: "status (fst (POST sv)) \<noteq> 200
       \<and> (\<forall>fd'. formData sv = Inr fd' \<longrightarrow> truthyStr (fd_prompt fd') \<and> truthyStr (apiToken sv))
      \<longrightarrow> status (fst (POST sv)) = 500
          \<and> (\<exists>d. body (fst (POST sv)) = ErrorBody (js ''Failed to generate image'') (Some d))"
    using POST_cases [of sv]
    by (auto simp: serverCatch_def)
  from success prompt token other show ?thesis by blast
qed

text \<open>
  A request that succeeds, one without a prompt, one without a token, one whose model run
  rejects, and one whose body cannot be parsed.
\<close>

theorem POST_responses_witness:
  "status (fst (POST (request (Some (js ''a red bicycle'')) None (Some (js ''r8_token''))
                        (UrlReturns (js ''https://img/1.png''))))) = 200
   \<and> body (fst (POST (request (Some (js ''a red bicycle'')) None (Some (js ''r8_token''))
                        (UrlReturns (js ''https://img/1.png'')))))
       = SuccessBody True (js ''https://img/1.png'') (js ''a red bicycle'')
   \<and> \<not> truthyStr (fd_prompt \<lparr>fd_prompt = None, fd_image = None\<rparr>)
   \<and> fst (POST (request None None (Some (js ''r8_token''))
                (UrlReturns (js ''https://img/1.png''))))
     = \<lparr>status = 400, body = ErrorBody (js ''Prompt is required'') None\<rparr>
   \<and> \<not> truthyStr (apiToken (request (Some (js ''a red bicycle'')) None None
                (UrlReturns (js ''https://img/1.png''))))
   \<and> fst (POST (request (Some (js ''a red bicycle'')) None None
                (UrlReturns (js ''https://img/1.png''))))
     = \<lparr>status = 500,
        body = ErrorBody
          (js ''Server configuration error: Replicate API token not configured'') None\<rparr>
   \<and> status (fst (POST malformedRequest)) = 500
   \<and> body (fst (POST malformedRequest))
       = ErrorBody (js ''Failed to generate image'')
           (Some (js ''Failed to parse body as FormData.''))"
proof -
  let ?url = "UrlReturns (js ''https://img/1.png'')"
  let ?ok = "request (Some (js ''a red bicycle'')) None (Some (js ''r8_token'')) ?url"
  let ?noPrompt = "request None None (Some (js ''r8_token'')) ?url"
  let ?noToken = "request (Some (js ''a red bicycle'')) None None ?url"
  let ?fd = "\<lparr>fd_prompt = Some (js ''a red bicycle''), fd_image = None\<rparr>"
  let ?empty = "\<lparr>fd_prompt = None, fd_image = None\<rparr>"
  have ne: "js ''a red bicycle'' \<noteq> []" "js ''r8_token'' \<noteq> []"
    by (simp_all add: js_def)
  have ok: "fst (POST ?ok)
      = \<lparr>status = 200,
         body = SuccessBody True (js ''https://img/1.png'') (js ''a red bicycle'')\<rparr>"
    using ne by (simp add: POST_def request_def generate_def Let_def)
  have h2: "formData ?noPrompt = Inr ?empty \<and> \<not> truthyStr (fd_prompt ?empty)"
    by (simp add: request_def)
  have h3: "formData ?noToken = Inr ?fd \<and> truthyStr (fd_prompt ?fd)
              \<and> \<not> truthyStr (apiToken ?noToken)"
    using ne by (simp add: request_def)
  have bad: "fst (POST malformedRequest)
      = \<lparr>status = 500,
         body = ErrorBody (js ''Failed to generate image'')
                  (Some (js ''Failed to parse body as FormData.''))\<rparr>"
    by (simp add: POST_def malformedRequest_def serverCatch_def)
  have h4: "status (fst (POST malformedRequest)) \<noteq> 200
     \<and> (\<forall>fd'. formData malformedRequest = Inr fd' \<longrightarrow>
            truthyStr (fd_prompt fd') \<and> truthyStr (apiToken malformedRequest))"
    by (simp add: bad) (simp add: malformedRequest_def)
  from POST_responses [of ?noPrompt ?empty] h2
  have c2: "fst (POST ?noPrompt)
      = \<lparr>status = 400, body = ErrorBody (js ''Prompt is required'') None\<rparr>"
    by blast
  from POST_responses [of ?noToken ?fd] h3
  have c3: "fst (POST ?noToken)
      = \<lparr>status = 500,
         body = ErrorBody
           (js ''Server configuration error: Replicate API token not configured'') None\<rparr>"
    by blast
  from POST_responses [of malformedRequest ?empty] h4
  have c4: "status (fst (POST malformedRequest)) = 500"
    by blast
  from POST_responses [of ?ok ?fd] ok
  have c1: "\<exists>url p. body (fst (POST ?ok)) = SuccessBody True url p"
    by simp
  show ?thesis
    using ok h2 h3 c1 c2 c3 c4 bad by simp
qed

text \<open>
  C9. In both variants an invocation that leaves through an error (the payment timeout, a
  response that is not ok, a missing or non-string image URL, a thrown transport error)
  leaves the history and the latest result as they were. The history or the latest result
  changes only when the response is ok and its image URL is a non-empty string.
\<close>

theorem failure_keeps_results:
  "(fst (handleGenerate e h s) = Failed t \<longrightarrow>
      generationHistory (fst (snd (handleGenerate e h s))) = generationHistory s
      \<and> generatedImage (fst (snd (handleGenerate e h s))) = generatedImage s)
   \<and> (fst (handleGenerate_fixedDelay u e h s2) = Failed t2 \<longrightarrow>
      generationHistory (fst (snd (handleGenerate_fixedDelay u e h s2))) = generationHistory s2
      \<and> generatedImage (fst (snd (handleGenerate_fixedDelay u e h s2))) = generatedImage s2)
   \<and> (generationHistory (fst (snd (handleGenerate e h s))) \<noteq> generationHistory s
       \<or> generatedImage (fst (snd (handleGenerate e h s))) \<noteq> generatedImage s
      \<longrightarrow> (\<exists>err url. fetch e \<lparr>fd_prompt = Some (prompt s), fd_image = uploadedImage s\<rparr>
                         = Response True (ApiObject err (JSString url)) \<and> url \<noteq> []))
   \<and> (generationHistory (fst (snd (handleGenerate_fixedDelay u e h s2))) \<noteq> generationHistory s2
       \<or> generatedImage (fst (snd (handleGenerate_fixedDelay u e h s2))) \<noteq> generatedImage s2
      \<longrightarrow> (\<exists>err url. fetch e \<lparr>fd_prompt = Some (prompt s2), fd_image = uploadedImage s2\<rparr>
                         = Response True (ApiObject err (JSString url)) \<and> url \<noteq> []))"
proof -
  have a: "fst (handleGenerate e h s) = Failed t \<longrightarrow>
      generationHistory (fst (snd (handleGenerate e h s))) = generationHistory s
      \<and> generatedImage (fst (snd (handleGenerate e h s))) = generatedImage s"
    using handleGenerate_results [of e h s] by simp
  have b: "fst (handleGenerate_fixedDelay u e h s2) = Failed t2 \<longrightarrow>
      generationHistory (fst (snd (handleGenerate_fixedDelay u e h s2))) = generationHistory s2
      \<and> generatedImage (fst (snd (handleGenerate_fixedDelay u e h s2))) = generatedImage s2"
    using handleGenerate_fixedDelay_results [of u e h s2] by simp
  have c: "\<exists>err url. fetch e \<lparr>fd_prompt = Some (prompt s), fd_image = uploadedImage s\<rparr>
                         = Response True (ApiObject err (JSString url)) \<and> url \<noteq> []"
    if "generationHistory (fst (snd (handleGenerate e h s))) \<noteq> generationHistory s
       \<or> generatedImage (fst (snd (handleGenerate e h s))) \<noteq> generatedImage s"
  proof -
    from that handleGenerate_results [of e h s]
    obtain img where "fst (handleGenerate e h s) = Succeeded img"
      by (cases "fst (handleGenerate e h s)") auto
    then have "fst (requestGeneration e s) = Inr img"
      by (auto simp: handleGenerate_exit split: if_splits sum.splits)
    then show ?thesis
      using requestGeneration_Inr [of e s img] by blast
  qed
  have d: "\<exists>err url. fetch e \<lparr>fd_prompt = Some (prompt s2), fd_image = uploadedImage s2\<rparr>
                         = Response True (ApiObject err (JSString url)) \<and> url \<noteq> []"
    if "generationHistory (fst (snd (handleGenerate_fixedDelay u e h s2))) \<noteq> generationHistory s2
       \<or> generatedImage (fst (snd (handleGenerate_fixedDelay u e h s2))) \<noteq> generatedImage s2"
  proof -
    from that handleGenerate_fixedDelay_results [of u e h s2]
    obtain img where "fst (handleGenerate_fixedDelay u e h s2) = Succeeded img"
      by (cases "fst (handleGenerate_fixedDelay u e h s2)") auto
    then have "fst (requestGeneration e s2) = Inr img"
      by (auto simp: handleGenerate_fixedDelay_exit split: if_splits sum.splits)
    then show ?thesis
      using requestGeneration_Inr [of e s2 img] by blast
  qed
  from a b c d show ?thesis by blast
qed

text \<open>
  The red bicycle: refused by the service in both variants, and generated in both
  variants.
\<close>

theorem failure_keeps_results_witness:
  "fst (handleGenerate (service refusal) (wallet True) (typed ''a red bicycle''))
     = Failed (ErrorInstance (js ''Prompt is required''))
   \<and> generationHistory (fst (snd
        (handleGenerate (service refusal) (wallet True) (typed ''a red bicycle'')))) = []
   \<and> fst (handleGenerate_fixedDelay testToken (service refusal) (wallet True)
            (typedFixedDelay ''a red bicycle''))
     = Failed (ErrorInstance (js ''Prompt is required''))
   \<and> generatedImage (fst (snd
        (handleGenerate_fixedDelay testToken (service refusal) (wallet True)
           (typedFixedDelay ''a red bicycle'')))) = None
   \<and> generatedImage (fst (snd
        (handleGenerate (service imageAnswer) (wallet True) (typed ''a red bicycle''))))
       \<noteq> generatedImage (typed ''a red bicycle'')
   \<and> generatedImage (fst (snd
        (handleGenerate_fixedDelay testToken (service imageAnswer) (wallet True)
           (typedFixedDelay ''a red bicycle''))))
       \<noteq> generatedImage (typedFixedDelay ''a red bicycle'')
   \<and> fetch (service imageAnswer) \<lparr>fd_prompt = Some (js ''a red bicycle''), fd_image = None\<rparr>
       = Response True (ApiObject JSUndefined (JSString (js ''https://img/1.png'')))"
proof -
  have v: "trim (prompt (typed ''a red bicycle'')) \<noteq> []"
    using red_bicycle by (simp add: typed_def)
  have v2: "trim (prompt (typedFixedDelay ''a red bicycle'')) \<noteq> []"
    using red_bicycle by (simp add: typedFixedDelay_def)
  have a: "truthyStr (address (wallet True))" and c: "isConfirmed (wallet True)"
    by (simp_all add: wallet_def js_def)
  have r: "fst (requestGeneration (service refusal) (typed ''a red bicycle''))
             = Inl (ErrorInstance (js ''Prompt is required''))"
    and r2: "fst (requestGeneration (service refusal) (typedFixedDelay ''a red bicycle''))
             = Inl (ErrorInstance (js ''Prompt is required''))"
    by (simp_all add: requestGeneration_def service_def refusal_def js_def)
  have g: "\<exists>img. fst (requestGeneration (service imageAnswer) (typed ''a red bicycle''))
             = Inr img"
    and g2: "\<exists>img. fst (requestGeneration (service imageAnswer)
                          (typedFixedDelay ''a red bicycle'')) = Inr img"
    by (simp_all add: requestGeneration_def service_def imageAnswer_def js_def)
  have x: "fst (handleGenerate (service refusal) (wallet True) (typed ''a red bicycle''))
     = Failed (ErrorInstance (js ''Prompt is required''))"
    using v a c r by (simp add: handleGenerate_exit)
  have x2: "fst (handleGenerate_fixedDelay testToken (service refusal) (wallet True)
            (typedFixedDelay ''a red bicycle''))
     = Failed (ErrorInstance (js ''Prompt is required''))"
    using v2 a r2 by (simp add: handleGenerate_fixedDelay_exit)
  have y: "generatedImage (fst (snd
        (handleGenerate (service imageAnswer) (wallet True) (typed ''a red bicycle''))))
       \<noteq> generatedImage (typed ''a red bicycle'')"
    using v a c g handleGenerate_results [of "service imageAnswer" "wallet True"
      "typed ''a red bicycle''"]
    by (auto simp: handleGenerate_exit typed_def initialPollingState_def)
  have y2: "generatedImage (fst (snd
        (handleGenerate_fixedDelay testToken (service imageAnswer) (wallet True)
           (typedFixedDelay ''a red bicycle''))))
       \<noteq> generatedImage (typedFixedDelay ''a red bicycle'')"
    using v2 a g2 handleGenerate_fixedDelay_results [of testToken "service imageAnswer"
      "wallet True" "typedFixedDelay ''a red bicycle''"]
    by (auto simp: handleGenerate_fixedDelay_exit typedFixedDelay_def initialState_def)
  have i: "generationHistory (typed ''a red bicycle'') = []"
    and i2: "generatedImage (typedFixedDelay ''a red bicycle'') = None"
    by (simp_all add: typed_def typedFixedDelay_def initialPollingState_def initialState_def)
  from failure_keeps_results [where e = "service refusal" and h = "wallet True"
      and s = "typed ''a red bicycle''" and ?s2.0 = "typedFixedDelay ''a red bicycle''"
      and u = testToken and t = "ErrorInstance (js ''Prompt is required'')"
      and ?t2.0 = "ErrorInstance (js ''Prompt is required'')"]
    failure_keeps_results [where e = "service imageAnswer" and h = "wallet True"
      and s = "typed ''a red bicycle''" and ?s2.0 = "typedFixedDelay ''a red bicycle''"
      and u = testToken]
    x x2 y y2 i i2
  show ?thesis
    by (simp add: service_def imageAnswer_def)
qed

text \<open>
  C10. The prompt field of every generation call, in both variants, is the prompt as the
  user entered it, not trimmed and not annotated, with or without an image. The prefix
  \<^verbatim>\<open>Reimagined: \<close> is put in front of the prompt stored in the result on the client, and
  of the prompt in the success answer of the endpoint, exactly when an image is included.
\<close>

theorem prompt_field_is_raw:
  "generationCalls (snd (snd (handleGenerate e h s))) =
     (if trim (prompt s) \<noteq> [] \<and> truthyStr (address h) \<and> isConfirmed h
      then [\<lparr>fd_prompt = Some (prompt s), fd_image = uploadedImage s\<rparr>] else [])
   \<and> generationCalls (snd (snd (handleGenerate_fixedDelay u e h s2))) =
     (if trim (prompt s2) \<noteq> [] \<and> truthyStr (address h)
      then [\<lparr>fd_prompt = Some (prompt s2), fd_image = uploadedImage s2\<rparr>] else [])
   \<and> (fst (handleGenerate e h s) = Succeeded img \<longrightarrow>
        gen_prompt img = (case uploadedImage s of
                            Some f \<Rightarrow> js ''Reimagined: '' @ prompt s
                          | None \<Rightarrow> prompt s))
   \<and> (fst (handleGenerate_fixedDelay u e h s2) = Succeeded img2 \<longrightarrow>
        gen_prompt img2 = (case uploadedImage s2 of
                             Some f \<Rightarrow> js ''Reimagined: '' @ prompt s2
                           | None \<Rightarrow> prompt s2))
   \<and> (formData sv = Inr fd \<and> fd_prompt fd = Some p \<and> status (fst (POST sv)) = 200 \<longrightarrow>
        resp_prompt (body (fst (POST sv)))
          = (case fd_image fd of
               Some f \<Rightarrow> js ''Reimagined: '' @ p
             | None \<Rightarrow> p))"
proof -
  have a: "fst (handleGenerate e h s) = Succeeded img \<longrightarrow>
        gen_prompt img = (case uploadedImage s of
                            Some f \<Rightarrow> js ''Reimagined: '' @ prompt s
                          | None \<Rightarrow> prompt s)"
  proof
    assume "fst (handleGenerate e h s) = Succeeded img"
    then have "fst (requestGeneration e s) = Inr img"
      by (auto simp: handleGenerate_exit split: if_splits sum.splits)
    then show "gen_prompt img = (case uploadedImage s of
                            Some f \<Rightarrow> js ''Reimagined: '' @ prompt s
                          | None \<Rightarrow> prompt s)"
      using requestGeneration_Inr [of e s img] by auto
  qed
  have b: "fst (handleGenerate_fixedDelay u e h s2) = Succeeded img2 \<longrightarrow>
        gen_prompt img2 = (case uploadedImage s2 of
                             Some f \<Rightarrow> js ''Reimagined: '' @ prompt s2
                           | None \<Rightarrow> prompt s2)"
  proof
    assume "fst (handleGenerate_fixedDelay u e h s2) = Succeeded img2"
    then have "fst (requestGeneration e s2) = Inr img2"
      by (auto simp: handleGenerate_fixedDelay_exit split: if_splits sum.splits)
    then show "gen_prompt img2 = (case uploadedImage s2 of
                             Some f \<Rightarrow> js ''Reimagined: '' @ prompt s2
                           | None \<Rightarrow> prompt s2)"
      using requestGeneration_Inr [of e s2 img2] by auto
  qed
  have c: "formData sv = Inr fd \<and> fd_prompt fd = Some p \<and> status (fst (POST sv)) = 200 \<longrightarrow>
        resp_prompt (body (fst (POST sv)))
          = (case fd_image fd of
               Some f \<Rightarrow> js ''Reimagined: '' @ p
             | None \<Rightarrow> p)"
    using POST_cases [of sv]
    by (auto simp: promptRequired_def tokenMissing_def serverCatch_def)
  from a b c show ?thesis
    by (simp add: handleGenerate_calls handleGenerate_fixedDelay_calls)
qed

text \<open>
  The prompt \<^verbatim>\<open> make it blue \<close>, with its spaces, and a PNG of three bytes: the call carries
  the prompt as typed, the stored prompt and the answer of the endpoint carry the prefix.
\<close>

theorem prompt_field_is_raw_witness:
  "generationCalls (snd (snd (handleGenerate (service imageAnswer) (wallet True)
       ((typed '' make it blue '')\<lparr>uploadedImage := Some (pngOfSize 3)\<rparr>))))
     = [\<lparr>fd_prompt = Some (js '' make it blue ''), fd_image = Some (pngOfSize 3)\<rparr>]
   \<and> fst (handleGenerate (service imageAnswer) (wallet True)
            ((typed '' make it blue '')\<lparr>uploadedImage := Some (pngOfSize 3)\<rparr>))
       = Succeeded \<lparr>imageUrl = js ''https://img/1.png'',
                    gen_prompt = js ''Reimagined:  make it blue '', timestamp = 0\<rparr>
   \<and> generationCalls (snd (snd (handleGenerate_fixedDelay testToken (service imageAnswer)
       (wallet False) (typedFixedDelay '' make it blue ''))))
     = [\<lparr>fd_prompt = Some (js '' make it blue ''), fd_image = None\<rparr>]
   \<and> fst (handleGenerate_fixedDelay testToken (service imageAnswer) (wallet False)
            (typedFixedDelay '' make it blue ''))
       = Succeeded \<lparr>imageUrl = js ''https://img/1.png'',
                    gen_prompt = js '' make it blue '', timestamp = 0\<rparr>
   \<and> status (fst (POST (request (Some (js '' make it blue '')) (Some (pngOfSize 3))
                          (Some (js ''r8_token'')) (UrlReturns (js ''https://img/1.png'')))))
       = 200
   \<and> resp_prompt (body (fst (POST (request (Some (js '' make it blue ''))
        (Some (pngOfSize 3)) (Some (js ''r8_token''))
        (UrlReturns (js ''https://img/1.png''))))))
       = js ''Reimagined:  make it blue ''"
proof -
  let ?s = "(typed '' make it blue '')\<lparr>uploadedImage := Some (pngOfSize 3)\<rparr>"
  let ?s2 = "typedFixedDelay '' make it blue ''"
  let ?sv = "request (Some (js '' make it blue '')) (Some (pngOfSize 3))
               (Some (js ''r8_token'')) (UrlReturns (js ''https://img/1.png''))"
  have v: "trim (prompt ?s) \<noteq> []" and v2: "trim (prompt ?s2) \<noteq> []"
    by (simp_all add: typed_def typedFixedDelay_def trim_def js_def isWhiteSpace_def)
  have f: "prompt ?s = js '' make it blue '' \<and> uploadedImage ?s = Some (pngOfSize 3)
           \<and> prompt ?s2 = js '' make it blue '' \<and> uploadedImage ?s2 = None"
    by (simp add: typed_def typedFixedDelay_def initialState_def)
  have a: "truthyStr (address (wallet True))" and c: "isConfirmed (wallet True)"
    and a': "truthyStr (address (wallet False))"
    by (simp_all add: wallet_def js_def)
  have r: "fst (requestGeneration (service imageAnswer) ?s)
             = Inr \<lparr>imageUrl = js ''https://img/1.png'',
                    gen_prompt = js ''Reimagined:  make it blue '', timestamp = 0\<rparr>"
    by (simp add: requestGeneration_def service_def imageAnswer_def typed_def js_def)
  have r2: "fst (requestGeneration (service imageAnswer) ?s2)
             = Inr \<lparr>imageUrl = js ''https://img/1.png'',
                    gen_prompt = js '' make it blue '', timestamp = 0\<rparr>"
    by (simp add: requestGeneration_def service_def imageAnswer_def typedFixedDelay_def
          initialState_def js_def)
  have x: "fst (handleGenerate (service imageAnswer) (wallet True) ?s)
       = Succeeded \<lparr>imageUrl = js ''https://img/1.png'',
                    gen_prompt = js ''Reimagined:  make it blue '', timestamp = 0\<rparr>"
    using v a c r by (simp add: handleGenerate_exit)
  have x2: "fst (handleGenerate_fixedDelay testToken (service imageAnswer) (wallet False) ?s2)
       = Succeeded \<lparr>imageUrl = js ''https://img/1.png'',
                    gen_prompt = js '' make it blue '', timestamp = 0\<rparr>"
    using v2 a' r2 by (simp add: handleGenerate_fixedDelay_exit)
  have p: "status (fst (POST ?sv)) = 200"
    by (simp add: POST_def request_def generate_def Let_def js_def)
  have q: "formData ?sv
             = Inr \<lparr>fd_prompt = Some (js '' make it blue ''), fd_image = Some (pngOfSize 3)\<rparr>"
    by (simp add: request_def)
  from prompt_field_is_raw [where e = "service imageAnswer" and h = "wallet True"
      and s = ?s and ?s2.0 = ?s2 and u = testToken and sv = ?sv
      and fd = "\<lparr>fd_prompt = Some (js '' make it blue ''), fd_image = Some (pngOfSize 3)\<rparr>"
      and p = "js '' make it blue ''"]
    v a c x p q f
  have polling: "generationCalls (snd (snd (handleGenerate (service imageAnswer) (wallet True) ?s)))
     = [\<lparr>fd_prompt = Some (js '' make it blue ''), fd_image = Some (pngOfSize 3)\<rparr>]"
    and answer: "resp_prompt (body (fst (POST ?sv))) = js ''Reimagined:  make it blue ''"
    by (simp_all add: js_def)
  from prompt_field_is_raw [where e = "service imageAnswer" and h = "wallet False"
      and s = ?s and ?s2.0 = ?s2 and u = testToken
      and ?img2.0 = "\<lparr>imageUrl = js ''https://img/1.png'',
                    gen_prompt = js '' make it blue '', timestamp = 0\<rparr>"]
    v2 a' x2 f
  have fixed: "generationCalls (snd (snd (handleGenerate_fixedDelay testToken
       (service imageAnswer) (wallet False) ?s2)))
     = [\<lparr>fd_prompt = Some (js '' make it blue ''), fd_image = None\<rparr>]"
    by simp
  from polling answer fixed x x2 p show ?thesis
    by simp
qed

end
